theory Spec2Isabelle
  imports Main "HOL-Library.AList" "HOL-Library.Sublist"
begin

section \<open>The esdoc webpack plugin: a shallow embedding\<close>

text \<open>
  The repository holds two variants of the plugin in \<^verbatim>\<open>src/index.js\<close>. The first
  (lines 1 to 384) is a class whose helpers are methods and which runs esdoc with
  \<^verbatim>\<open>spawnSync\<close> inside the emit hook. The second (lines 386 to 674) keeps the helpers as
  module level functions, and runs esdoc with \<^verbatim>\<open>spawn\<close> from the done hook. A
  definition of the first variant carries the name of the source; a definition of the
  second variant carries the suffix \<open>_v2\<close>.

  Strings are lists of characters. Paths are POSIX paths. The colouring done by
  \<^verbatim>\<open>chalk\<close> is left out of every console line. The options are taken as the schema
  check of the constructor has passed them. Writing a file succeeds. The lines that
  the done hooks print about the run time are left out.
\<close>

subsection \<open>JavaScript values, objects and exceptions\<close>

datatype jsval =
    JUndefined
  | JNull
  | JBool bool
  | JNum int
  | JStr string
  | JArr "jsval list"
  | JObj "(string \<times> jsval) list"

type_synonym jsobj = "(string \<times> jsval) list"

datatype exn =
    TypeError string
  | ReferenceError string
  | SyntaxError string
  | SystemError string
  | JsError string

text \<open>The conversion to a boolean that \<^verbatim>\<open>if\<close>, \<^verbatim>\<open>&&\<close>, \<^verbatim>\<open>||\<close> and \<^verbatim>\<open>!\<close> apply.\<close>

fun truthy :: "jsval \<Rightarrow> bool" where
  "truthy JUndefined = False"
| "truthy JNull = False"
| "truthy (JBool b) = b"
| "truthy (JNum n) = (n \<noteq> 0)"
| "truthy (JStr s) = (s \<noteq> [])"
| "truthy (JArr xs) = True"
| "truthy (JObj ps) = True"

text \<open>Reading a property: a missing key reads as \<^verbatim>\<open>undefined\<close>.\<close>

definition getProp :: "jsobj \<Rightarrow> string \<Rightarrow> jsval" where
  "getProp ob k = (case map_of ob k of None \<Rightarrow> JUndefined | Some v \<Rightarrow> v)"

text \<open>Writing a property keeps the position of a key that is there, and appends a new one.\<close>

definition setProp :: "string \<Rightarrow> jsval \<Rightarrow> jsobj \<Rightarrow> jsobj" where
  "setProp k v ob = AList.update k v ob"

definition ownKeys :: "jsobj \<Rightarrow> string list" where
  "ownKeys ob = remdups (map fst ob)"

text \<open>
  The object literal \<^verbatim>\<open>{...a, ...b}\<close>: the properties of \<open>a\<close>, then every own
  property of \<open>b\<close> written over them in turn.
\<close>

definition spread :: "jsobj \<Rightarrow> jsobj \<Rightarrow> jsobj" where
  "spread a b = fold (\<lambda>k acc. setProp k (getProp b k) acc) (ownKeys b) a"

subsection \<open>Strings\<close>

text \<open>\<^verbatim>\<open>String.prototype.substring\<close>: both ends are clamped to the string, and swapped
  when the first is the larger.\<close>

definition substring :: "string \<Rightarrow> int \<Rightarrow> int \<Rightarrow> string" where
  "substring s a b =
     (let n = int (length s);
          a' = max 0 (min a n);
          b' = max 0 (min b n);
          lo = min a' b';
          hi = max a' b'
      in take (nat (hi - lo)) (drop (nat lo) s))"

text \<open>\<^verbatim>\<open>String.prototype.lastIndexOf\<close> for one character: \<open>-1\<close> when it is absent.\<close>

definition lastIndexOf :: "string \<Rightarrow> char \<Rightarrow> int" where
  "lastIndexOf s c =
     (if c \<in> set s
      then int (length s) - 1 - int (length (takeWhile (\<lambda>x. x \<noteq> c) (rev s)))
      else - 1)"

text \<open>\<^verbatim>\<open>s[j]\<close>: \<^verbatim>\<open>undefined\<close> (here \<open>None\<close>) out of range.\<close>

definition charAt :: "string \<Rightarrow> nat \<Rightarrow> char option" where
  "charAt s j = (if j < length s then Some (s ! j) else None)"

text \<open>\<^verbatim>\<open>String.prototype.split\<close> for a separator of one character.\<close>

fun split_on :: "char \<Rightarrow> string \<Rightarrow> string list" where
  "split_on c [] = [[]]"
| "split_on c (x # xs) =
     (if x = c then [] # split_on c xs
      else (case split_on c xs of
              [] \<Rightarrow> [[x]]
            | w # ws \<Rightarrow> (x # w) # ws))"

text \<open>A regular expression that is a literal text: does the string hold it anywhere.\<close>

fun contains :: "string \<Rightarrow> string \<Rightarrow> bool" where
  "contains pat [] = (pat = [])"
| "contains pat (x # xs) = (prefix pat (x # xs) \<or> contains pat xs)"

subsection \<open>The Common-Prefix Resolver\<close>

text \<open>
  The inner loop of \<^verbatim>\<open>getLongestCommonSharedDirectory\<close>,
  \<^verbatim>\<open>for (let j = 0; j < k; j++) { if (s[i][j] != s[0][j]) { k = j; break; } }\<close>,
  as the value of \<open>k\<close> it leaves, started at index \<open>j\<close>.
\<close>

function scan :: "string \<Rightarrow> string \<Rightarrow> nat \<Rightarrow> nat \<Rightarrow> nat" where
  "scan si s0 j k =
     (if j < k
      then (if charAt si j \<noteq> charAt s0 j then j else scan si s0 (Suc j) k)
      else k)"
  by pat_completeness auto
termination
  by (relation "measure (\<lambda>(si, s0, j, k). k - j)") auto

declare scan.simps [simp del]

text \<open>One round of the outer loop: \<^verbatim>\<open>k = Math.min(k, s[i].length)\<close>, then the scan.\<close>

definition shrink :: "string \<Rightarrow> string \<Rightarrow> nat \<Rightarrow> nat" where
  "shrink s0 si k = scan si s0 0 (min k (length si))"

text \<open>
  The method of the first variant (lines 145 to 158). On the empty array \<^verbatim>\<open>s[0]\<close> is
  \<^verbatim>\<open>undefined\<close>, and reading its \<^verbatim>\<open>length\<close> raises a TypeError.
\<close>

definition getLongestCommonSharedDirectory :: "string list \<Rightarrow> exn + string" where
  "getLongestCommonSharedDirectory s =
     (case s of
        [] \<Rightarrow> Inl (TypeError ''Cannot read property length of undefined'')
      | s0 # rest \<Rightarrow>
          (let k = fold (shrink s0) rest (length s0);
               fullPath = substring s0 0 (int k)
           in Inr (substring fullPath 0 (lastIndexOf fullPath (CHR ''/'')))))"

text \<open>
  The function of the second variant (lines 445 to 458). It reads \<^verbatim>\<open>s[0].Length\<close>, which
  is \<^verbatim>\<open>undefined\<close> on a string, and calls \<^verbatim>\<open>Math.Min\<close>, which is \<^verbatim>\<open>undefined\<close> and so not
  callable: the first round of the outer loop raises a TypeError. With one path the
  loop body never runs, and \<^verbatim>\<open>substring(0, undefined)\<close> is the whole string.
\<close>

definition getLongestCommonSharedDirectory_v2 :: "string list \<Rightarrow> exn + string" where
  "getLongestCommonSharedDirectory_v2 s =
     (case s of
        [] \<Rightarrow> Inl (TypeError ''Cannot read property Length of undefined'')
      | [s0] \<Rightarrow>
          (let fullPath = substring s0 0 (int (length s0))
           in Inr (substring fullPath 0 (lastIndexOf fullPath (CHR ''/''))))
      | s0 # s1 # rest \<Rightarrow> Inl (TypeError ''Math.Min is not a function''))"

text \<open>
  The spec's words for the resolver: the longest common leading substring of all the
  paths, and its cut at the last separator.
\<close>

fun common2 :: "string \<Rightarrow> string \<Rightarrow> string" where
  "common2 (x # xs) (y # ys) = (if x = y then x # common2 xs ys else [])"
| "common2 xs ys = []"

definition commonLeadingSubstring :: "string list \<Rightarrow> string" where
  "commonLeadingSubstring s = fold (\<lambda>p acc. common2 acc p) (tl s) (hd s)"

definition cutAtLastSeparator :: "string \<Rightarrow> string" where
  "cutAtLastSeparator p = rev (drop 1 (dropWhile (\<lambda>c. c \<noteq> CHR ''/'') (rev p)))"

subsection \<open>The file system\<close>

text \<open>
  A file holds either a JSON document whose top level is an object, or any other text
  (an executable, a file that does not parse). A document whose top level is not an
  object is outside the model.
\<close>

datatype fcontent = Text string | JsonDoc jsobj

type_synonym fsys = "string \<rightharpoonup> fcontent"

text \<open>\<^verbatim>\<open>fse.existsSync\<close>: the empty path never exists.\<close>

definition existsSync :: "fsys \<Rightarrow> string \<Rightarrow> bool" where
  "existsSync fs p = (p \<noteq> [] \<and> fs p \<noteq> None)"

text \<open>\<^verbatim>\<open>fse.unlinkSync\<close> raises \<^verbatim>\<open>ENOENT\<close> on a path that is not there.\<close>

definition unlinkSync :: "fsys \<Rightarrow> string \<Rightarrow> exn + fsys" where
  "unlinkSync fs p =
     (if fs p = None then Inl (SystemError ''ENOENT'') else Inr (fs(p := None)))"

definition writeFileSync :: "fsys \<Rightarrow> string \<Rightarrow> fcontent \<Rightarrow> fsys" where
  "writeFileSync fs p c = fs(p \<mapsto> c)"

subsection \<open>The Executable Locator\<close>

text \<open>
  \<^verbatim>\<open>lookupFile\<close> is the same text in both variants (lines 167 to 185 and 429 to 443).
  The argument \<open>rj dirname filename\<close> stands for
  \<^verbatim>\<open>path.resolve(path.join(dirname, filename))\<close>. The callback of the inner \<^verbatim>\<open>some\<close>
  returns the assigned path, which is not empty when it exists, so both loops stop at
  the first path that exists.
\<close>

fun someDir :: "(string \<Rightarrow> string \<Rightarrow> string) \<Rightarrow> fsys \<Rightarrow> string \<Rightarrow> string list \<Rightarrow> string option" where
  "someDir rj fs filename [] = None"
| "someDir rj fs filename (dirname # dirs) =
     (let file = rj dirname filename
      in if existsSync fs file then Some file else someDir rj fs filename dirs)"

fun lookupFile :: "(string \<Rightarrow> string \<Rightarrow> string) \<Rightarrow> fsys \<Rightarrow> string list \<Rightarrow> string list \<Rightarrow> string option" where
  "lookupFile rj fs [] dirs = None"
| "lookupFile rj fs (filename # files) dirs =
     (case someDir rj fs filename dirs of
        Some file \<Rightarrow> Some file
      | None \<Rightarrow> lookupFile rj fs files dirs)"

text \<open>The spec's words: the candidate paths, file names outermost, directories innermost.\<close>

definition candidates :: "(string \<Rightarrow> string \<Rightarrow> string) \<Rightarrow> string list \<Rightarrow> string list \<Rightarrow> string list" where
  "candidates rj files dirs =
     concat (map (\<lambda>filename. map (\<lambda>dirname. rj dirname filename) dirs) files)"

subsection \<open>Paths\<close>

text \<open>
  \<^verbatim>\<open>path.parse\<close> of Node for POSIX paths, as far as the plugin reads it: the fields
  \<^verbatim>\<open>dir\<close> and \<^verbatim>\<open>base\<close>. Trailing separators are skipped, \<^verbatim>\<open>base\<close> is the text after the
  last separator left, and \<^verbatim>\<open>dir\<close> is the text before that separator, or \<^verbatim>\<open>/\<close> when
  an absolute path has nothing before it.
\<close>

definition stripTrailing :: "string \<Rightarrow> string" where
  "stripTrailing p = rev (dropWhile (\<lambda>c. c = CHR ''/'') (rev p))"

definition parse_base :: "string \<Rightarrow> string" where
  "parse_base p = rev (takeWhile (\<lambda>c. c \<noteq> CHR ''/'') (rev (stripTrailing p)))"

definition parse_dir :: "string \<Rightarrow> string" where
  "parse_dir p =
     (let d = rev (drop 1 (dropWhile (\<lambda>c. c \<noteq> CHR ''/'') (rev (stripTrailing p))))
      in if d = [] \<and> prefix ''/'' p then ''/'' else d)"

subsection \<open>The plugin's options\<close>

text \<open>The constructor (lines 26 to 65, and 496 to 519): \<^verbatim>\<open>{...defaultOptions, ...opts}\<close>.\<close>

definition defaultOptions :: "jsobj \<Rightarrow> jsobj" where
  "defaultOptions opts =
     [(''conf'', JStr ''.esdoc.json''),
      (''cwd'', if truthy (getProp opts ''cwd'') then getProp opts ''cwd'' else JStr ''./''),
      (''preserveTmpFile'', JBool True),
      (''showOutput'', JBool False),
      (''source'', JStr ''./src''),
      (''destination'', JStr ''./docs''),
      (''excludes'', JArr [JStr (CHR 0x5C # ''.config'' @ CHR 0x5C # ''.js''),
                           JStr (CHR 0x5C # ''.babel'' @ CHR 0x5C # ''.js'')]),
      (''plugins'', JArr [JObj [(''name'', JStr ''esdoc-standard-plugin'')]])]"

definition pluginOptions :: "jsobj \<Rightarrow> jsobj" where
  "pluginOptions opts = spread (defaultOptions opts) opts"

text \<open>A property that the options schema has checked to be a string.\<close>

fun strOf :: "jsval \<Rightarrow> string" where
  "strOf (JStr s) = s"
| "strOf v = []"

subsection \<open>The state of a compiler with the plugin applied\<close>

text \<open>
  The process around the plugin: \<^verbatim>\<open>process.platform\<close>, \<^verbatim>\<open>process.cwd()\<close>,
  \<^verbatim>\<open>__dirname\<close>, \<^verbatim>\<open>path.resolve(path.join(d, f))\<close>, and the esdoc executable: what a
  run of it at a path, with arguments, in a working directory and on a disk leaves
  behind. \<open>runs\<close> is the run as \<^verbatim>\<open>spawnSync\<close> reports it (the streams and the status are
  \<^verbatim>\<open>null\<close> when the process could not be started); \<open>emits\<close> is the run as the events
  that \<^verbatim>\<open>spawn\<close> delivers, in their order. \<open>requires\<close> is \<^verbatim>\<open>require\<close> of Node on a disk
  and a path: the exports of the module, an object or \<^verbatim>\<open>null\<close>, or the exception
  raised. Node picks the loader by the name of the file, so what a file gives does not
  follow from its content alone; a module that exports anything but an object or
  \<^verbatim>\<open>null\<close> is outside the model.
\<close>

datatype proc = Proc (stdout: "string option") (stderr: "string option") (status: "int option")

datatype event = StdoutData string | StderrData string | Close int

record env =
  platform :: string
  cwd :: string
  dirname :: string
  resolveJoin :: "string \<Rightarrow> string \<Rightarrow> string"
  runs :: "string \<Rightarrow> string list \<Rightarrow> string \<Rightarrow> fsys \<Rightarrow> proc \<times> fsys"
  emits :: "string \<Rightarrow> string list \<Rightarrow> string \<Rightarrow> fsys \<Rightarrow> event list \<times> fsys"
  requires :: "fsys \<Rightarrow> string \<Rightarrow> exn + jsobj option"

text \<open>What the continuation of the emit hook is called with.\<close>

datatype cbarg = NoArgument | WithError exn

text \<open>
  The variables that \<^verbatim>\<open>apply\<close> declares and its hooks share (they live on from one
  build cycle to the next), the disk, the two console streams, and the calls of the
  continuation so far. \<open>None\<close> is \<^verbatim>\<open>null\<close> or \<^verbatim>\<open>undefined\<close>.
\<close>

record state =
  esdocConfig :: string
  esdocConfigDir :: string
  obj :: "jsobj option"
  files :: "string list"
  tmpFile :: "string option"
  cmd :: "string option"
  esdocArgs :: "string list"
  esdocErrors :: "string list"
  disk :: fsys
  console_out :: "string list"
  console_err :: "string list"
  callbacks :: "cbarg list"

datatype completion = Proceeds | Returns | Throws exn

definition console_log :: "string \<Rightarrow> state \<Rightarrow> state" where
  "console_log m st = st\<lparr>console_out := console_out st @ [m]\<rparr>"

definition console_error :: "string \<Rightarrow> state \<Rightarrow> state" where
  "console_error m st = st\<lparr>console_err := console_err st @ [m]\<rparr>"

definition callback :: "cbarg \<Rightarrow> state \<Rightarrow> state" where
  "callback a st = st\<lparr>callbacks := callbacks st @ [a]\<rparr>"

subsection \<open>Locating the executable\<close>

definition isWindowsEnv :: "env \<Rightarrow> bool" where
  "isWindowsEnv e = prefix ''win'' (platform e)"

definition getESDocFiles :: "env \<Rightarrow> string list" where
  "getESDocFiles e =
     (if isWindowsEnv e then [''node_modules/.bin/jsdoc.cmd'']
      else [''node_modules/.bin/esdoc'', ''node_modules/esdoc/esdoc.js''])"

definition ESDOC_FILES_v2 :: "env \<Rightarrow> string list" where
  "ESDOC_FILES_v2 e =
     (if isWindowsEnv e then []
      else [''node_modules/.bin/esdoc'', ''node_modules/esdoc/esdoc.js''])"

text \<open>
  Lines 288 to 305. \<^verbatim>\<open>new Error(a, b)\<close> keeps \<open>a\<close> as its message. After the
  continuation is called with the error the hook goes on: there is no \<^verbatim>\<open>return\<close>.
\<close>

definition locateExecutable :: "env \<Rightarrow> jsobj \<Rightarrow> state \<Rightarrow> state" where
  "locateExecutable e options st =
     (let st1 = console_log ''ESDocPlugin: Compiling...'' st;
          found = lookupFile (resolveJoin e) (disk st1) (getESDocFiles e)
                    [esdocConfigDir st1, strOf (getProp options ''cwd''), cwd e, dirname e];
          st2 = st1\<lparr>cmd := found\<rparr>
      in if found = None then callback (WithError (JsError ''ESDocPlugin:'')) st2 else st2)"

text \<open>Lines 584 to 601.\<close>

definition locateExecutable_v2 :: "env \<Rightarrow> jsobj \<Rightarrow> state \<Rightarrow> state" where
  "locateExecutable_v2 e options st =
     (let st1 = console_log ''EMITTING'' (console_log ''ESDocPlugin: Compiling...'' st);
          found = lookupFile (resolveJoin e) (disk st1) (ESDOC_FILES_v2 e)
                    [esdocConfigDir st1, strOf (getProp options ''cwd''), cwd e, dirname e];
          st2 = st1\<lparr>cmd := found\<rparr>
      in if found = None then callback (WithError (JsError ''ESDocPlugin:'')) st2 else st2)"

subsection \<open>Reading the configuration file\<close>

text \<open>
  \<^verbatim>\<open>fse.readJsonSync(filepath, {throws: ...})\<close>: with \<^verbatim>\<open>throws: false\<close> a file that
  does not parse reads as \<^verbatim>\<open>null\<close>. The method of the first variant (lines 111 to
  114) passes \<^verbatim>\<open>throws: false\<close>, and documents its result as an object or \<^verbatim>\<open>null\<close>.
\<close>

definition readJsonSync :: "bool \<Rightarrow> fsys \<Rightarrow> string \<Rightarrow> exn + jsobj option" where
  "readJsonSync throws fsy filepath =
     (case fsy filepath of
        Some (JsonDoc ob) \<Rightarrow> Inr (Some ob)
      | _ \<Rightarrow> if throws then Inl (SyntaxError filepath) else Inr None)"

definition readConfigFile :: "fsys \<Rightarrow> string \<Rightarrow> exn + jsobj option" where
  "readConfigFile fsy filepath = readJsonSync False fsy filepath"

text \<open>The function of the second variant (lines 466 to 469) is \<^verbatim>\<open>require(filepath)\<close>,
  after the path is deleted from the cache: what it returns or raises is what the
  loader of the process does with the file.\<close>

definition readConfigFile_v2 :: "env \<Rightarrow> fsys \<Rightarrow> string \<Rightarrow> exn + jsobj option" where
  "readConfigFile_v2 e fsy filepath = requires e fsy filepath"

text \<open>Lines 306 to 314: the \<^verbatim>\<open>try\<close> around the read, with its \<^verbatim>\<open>catch\<close>.\<close>

definition readConfig :: "state \<Rightarrow> completion \<times> state" where
  "readConfig st =
     (if existsSync (disk st) (esdocConfig st)
      then (case readConfigFile (disk st) (esdocConfig st) of
              Inl exception \<Rightarrow> (Returns, callback (WithError exception) st)
            | Inr v \<Rightarrow> (Proceeds, st\<lparr>obj := v\<rparr>))
      else (Proceeds, st))"

text \<open>Lines 602 to 610.\<close>

definition readConfig_v2 :: "env \<Rightarrow> state \<Rightarrow> completion \<times> state" where
  "readConfig_v2 e st =
     (if existsSync (disk st) (esdocConfig st)
      then (case readConfigFile_v2 e (disk st) (esdocConfig st) of
              Inl exception \<Rightarrow> (Returns, callback (WithError exception) st)
            | Inr v \<Rightarrow> (Proceeds, st\<lparr>obj := v\<rparr>))
      else (Proceeds, st))"

subsection \<open>Resolving the configuration\<close>

text \<open>The two tests on a dependency: \<^verbatim>\<open>/\/node_modules\//\<close> and \<^verbatim>\<open>/index.js$/\<close>. In the
  second the dot is not escaped: it stands for any character but a line end.\<close>

definition exception_re :: "string \<Rightarrow> bool" where
  "exception_re filepath = contains ''/node_modules/'' filepath"

definition inclusion_re :: "string \<Rightarrow> bool" where
  "inclusion_re filepath =
     (let n = length filepath
      in 8 \<le> n \<and> take 5 (drop (n - 8) filepath) = ''index''
         \<and> drop (n - 2) filepath = ''js''
         \<and> filepath ! (n - 3) \<noteq> CHR 0x0A \<and> filepath ! (n - 3) \<noteq> CHR 0x0D)"

text \<open>Lines 329 to 338: the \<^verbatim>\<open>forEach\<close> over the dependencies, pushing onto \<^verbatim>\<open>files\<close>.\<close>

fun collect :: "string list \<Rightarrow> string list \<Rightarrow> string list" where
  "collect [] acc = acc"
| "collect (filepath # rest) acc =
     collect rest
       (if \<not> exception_re filepath \<and> inclusion_re filepath \<and> filepath \<notin> set acc
        then acc @ [filepath] else acc)"

text \<open>Lines 625 to 634: the same without the test for a path already collected.\<close>

fun collect_v2 :: "string list \<Rightarrow> string list \<Rightarrow> string list" where
  "collect_v2 [] acc = acc"
| "collect_v2 (filepath # rest) acc =
     collect_v2 rest
       (if \<not> exception_re filepath \<and> inclusion_re filepath
        then acc @ [filepath] else acc)"

text \<open>
  Lines 316 to 343. Reading \<^verbatim>\<open>obj.source\<close> when \<^verbatim>\<open>obj\<close> is \<^verbatim>\<open>null\<close> raises a TypeError;
  so does the resolver on an empty \<^verbatim>\<open>files\<close>.
\<close>

definition resolveConfig :: "jsobj \<Rightarrow> string list \<Rightarrow> state \<Rightarrow> completion \<times> state" where
  "resolveConfig options fileDependencies st =
     (case obj st of
        None \<Rightarrow> (Throws (TypeError ''Cannot read property source of null''), st)
      | Some ob \<Rightarrow>
          if truthy (getProp ob ''source'') \<and> truthy (getProp ob ''includes'')
          then (Proceeds,
                (console_log ''ESDocPlugin: Pulling data from the configuration file.'' st)
                  \<lparr>obj := Some (spread ob options)\<rparr>)
          else
            (let st1 = console_log ''ESDocPlugin: Provided configuration either not found or does not contain an includes key. Generating from the bundles.'' st;
                 st2 = st1\<lparr>files := collect fileDependencies (files st1)\<rparr>
             in case getLongestCommonSharedDirectory (files st2) of
                  Inl exception \<Rightarrow> (Throws exception, st2)
                | Inr shared \<Rightarrow>
                    (Proceeds,
                     st2\<lparr>obj := Some (spread (setProp ''source'' (JStr shared) ob) options)\<rparr>)))"

text \<open>Lines 612 to 639.\<close>

definition resolveConfig_v2 :: "jsobj \<Rightarrow> string list \<Rightarrow> state \<Rightarrow> completion \<times> state" where
  "resolveConfig_v2 options fileDependencies st =
     (case obj st of
        None \<Rightarrow> (Throws (TypeError ''Cannot read property source of null''), st)
      | Some ob \<Rightarrow>
          if truthy (getProp ob ''source'') \<and> truthy (getProp ob ''includes'')
          then (Proceeds,
                (console_log ''ESDocPlugin: Pulling data from the configuration file.'' st)
                  \<lparr>obj := Some (spread ob options)\<rparr>)
          else
            (let st1 = console_log ''ESDocPlugin: Provided configuration either not found or does not contain an includes key. Generating from the bundles.'' st;
                 st2 = st1\<lparr>files := collect_v2 fileDependencies (files st1)\<rparr>
             in case getLongestCommonSharedDirectory_v2 (files st2) of
                  Inl exception \<Rightarrow> (Throws exception, st2)
                | Inr shared \<Rightarrow>
                    (Proceeds,
                     st2\<lparr>obj := Some (spread (setProp ''source'' (JStr shared) ob) options)\<rparr>)))"

subsection \<open>Writing the transient configuration file\<close>

text \<open>Lines 346 to 353: the name of the transient file, from \<^verbatim>\<open>path.parse(esdocConfig)\<close>
  and the test \<^verbatim>\<open>/\.tmp$/\<close> on the file name.\<close>

definition transientPath :: "string \<Rightarrow> string" where
  "transientPath config =
     (let tmpFilename = parse_base config;
          tmpFilepath = parse_dir config
      in if suffix ''.tmp'' tmpFilename
         then tmpFilepath @ ''/'' @ tmpFilename
         else tmpFilepath @ ''/'' @ tmpFilename @ ''.tmp'')"

text \<open>Line 642: \<^verbatim>\<open>tmpFile = esdocConfig + '.tmp'\<close>.\<close>

definition transientPath_v2 :: "string \<Rightarrow> string" where
  "transientPath_v2 config = config @ ''.tmp''"

text \<open>\<^verbatim>\<open>JSON.stringify(obj)\<close>, as the content of the file written.\<close>

definition stringify :: "jsobj option \<Rightarrow> fcontent" where
  "stringify v = (case v of None \<Rightarrow> Text ''null'' | Some ob \<Rightarrow> JsonDoc ob)"

definition showCmd :: "string option \<Rightarrow> string" where
  "showCmd c = (case c of None \<Rightarrow> ''null'' | Some p \<Rightarrow> p)"

text \<open>Lines 346 to 363.\<close>

definition writeTransient :: "state \<Rightarrow> state" where
  "writeTransient st =
     (let t = transientPath (esdocConfig st);
          st1 = console_log (''ESDocPlugin: Writing temporary file at:  '' @ t) st;
          st2 = st1\<lparr>tmpFile := Some t,
                    disk := writeFileSync (disk st1) t (stringify (obj st1)),
                    esdocConfig := t\<rparr>;
          st3 = console_log (''ESDocPlugin: Using esdoc located at '' @ showCmd (cmd st2)) st2
      in st3\<lparr>esdocArgs := [''-c'', t]\<rparr>)"

text \<open>Lines 641 to 651.\<close>

definition writeTransient_v2 :: "state \<Rightarrow> state" where
  "writeTransient_v2 st =
     (let t = transientPath_v2 (esdocConfig st);
          st1 = console_log (''ESDocPlugin: Writing temporary file at:  '' @ t) st;
          st2 = st1\<lparr>tmpFile := Some t,
                    disk := writeFileSync (disk st1) t (stringify (obj st1)),
                    esdocConfig := t\<rparr>;
          st3 = console_log (''ESDocPlugin: Using esdoc located at '' @ showCmd (cmd st2)) st2
      in st3\<lparr>esdocArgs := [''-c'', t]\<rparr>)"

subsection \<open>The Process Runner of the first variant\<close>

text \<open>One line of the output of esdoc, as the plugin prints it:
  \<^verbatim>\<open>`${split[0]}: ${split[1]}`\<close> with \<^verbatim>\<open>split = message.split(':')\<close>.\<close>

definition messageLine :: "string \<Rightarrow> string" where
  "messageLine message =
     (case split_on (CHR '':'') message of
        [] \<Rightarrow> ''undefined: undefined''
      | a # rest \<Rightarrow> a @ '': '' @ (case rest of [] \<Rightarrow> ''undefined'' | b # others \<Rightarrow> b))"

fun printMessages :: "string list \<Rightarrow> state \<Rightarrow> state" where
  "printMessages [] st = st"
| "printMessages (message # rest) st =
     printMessages rest (if message \<noteq> [] then console_log (messageLine message) st else st)"

text \<open>Lines 203 to 236.\<close>

definition showOutputBlock :: "proc \<Rightarrow> state \<Rightarrow> state" where
  "showOutputBlock esdoc st =
     (let st1 = console_log ''ESDocPlugin: Beginning output.'' st;
          received = (case stdout esdoc of None \<Rightarrow> ''null'' | Some d \<Rightarrow> d);
          messages = split_on (CHR 0x0A) received
      in if length messages > 1 then printMessages messages st1 else st1)"

text \<open>\<^verbatim>\<open>spawnSync\<close> raises a TypeError when the file to run is not a string.\<close>

definition spawnSync :: "env \<Rightarrow> string option \<Rightarrow> string list \<Rightarrow> string \<Rightarrow> fsys \<Rightarrow> exn + proc \<times> fsys" where
  "spawnSync e c args dir fsy =
     (case c of
        None \<Rightarrow> Inl (TypeError ''The file argument must be of type string'')
      | Some file \<Rightarrow> Inr (runs e file args dir fsy))"

text \<open>Lines 238 to 244: the removal of the transient file, with the exception that
  leaves it, if any.\<close>

definition removeTmp :: "jsobj \<Rightarrow> string option \<Rightarrow> state \<Rightarrow> exn option \<times> state" where
  "removeTmp options tmp st =
     (case tmp of
        None \<Rightarrow> (None, st)
      | Some t \<Rightarrow>
          if t \<noteq> [] \<and> \<not> truthy (getProp options ''preserveTmpFile'')
          then (let st1 = console_log ''ESDocPlugin: Removing temporary esdoc config file...'' st
                in if existsSync (disk st1) t
                   then (case unlinkSync (disk st1) t of
                           Inl x \<Rightarrow> (Some x, st1)
                         | Inr d \<Rightarrow> (None, st1\<lparr>disk := d\<rparr>))
                   else (None, st1))
          else (None, st))"

text \<open>What \<^verbatim>\<open>Esdoc\<close> returns: \<^verbatim>\<open>true\<close>, or an Error object (returned, not raised).\<close>

datatype returned = ReturnedTrue | ReturnedError exn

text \<open>Lines 195 to 252. \<open>Inl\<close> is an exception that leaves the method.\<close>

definition Esdoc :: "env \<Rightarrow> jsobj \<Rightarrow> string option \<Rightarrow> string list \<Rightarrow> string \<Rightarrow> string option \<Rightarrow> state
    \<Rightarrow> (exn + returned) \<times> state" where
  "Esdoc e options c args dir tmp st =
     (case spawnSync e c args dir (disk st) of
        Inl x \<Rightarrow> (Inl x, st)
      | Inr (esdoc, d) \<Rightarrow>
          (let st1 = st\<lparr>disk := d\<rparr>;
               st2 = (if truthy (getProp options ''showOutput'')
                      then showOutputBlock esdoc st1 else st1)
           in case removeTmp options tmp st2 of
                (Some x, st3) \<Rightarrow> (Inl x, st3)
              | (None, st3) \<Rightarrow>
                  (case stderr esdoc of
                     None \<Rightarrow> (Inl (TypeError ''Cannot read property length of null''), st3)
                   | Some errs \<Rightarrow>
                       if length errs > 0
                       then (Inr (ReturnedError (JsError ''ESDocPlugin:'')),
                             console_error (''ERR toString '' @ errs) st3)
                       else (Inr ReturnedTrue,
                             console_log ''ESDocPlugin: Emitted files to output directory.'' st3))))"

subsection \<open>The emit hook\<close>

text \<open>
  Lines 286 to 372. An exception of \<^verbatim>\<open>Esdoc\<close> is caught, and the handler returns
  without calling the continuation; the value \<^verbatim>\<open>Esdoc\<close> returns is dropped.
\<close>

definition emit :: "env \<Rightarrow> jsobj \<Rightarrow> string list \<Rightarrow> state \<Rightarrow> completion \<times> state" where
  "emit e options fileDependencies st =
     (case readConfig (locateExecutable e options st) of
        (Proceeds, st2) \<Rightarrow>
          (case resolveConfig options fileDependencies st2 of
             (Proceeds, st3) \<Rightarrow>
               (let st4 = writeTransient st3
                in case Esdoc e options (cmd st4) (esdocArgs st4) (esdocConfigDir st4)
                          (tmpFile st4) st4 of
                     (Inl x, st5) \<Rightarrow> (Returns, st5)
                   | (Inr r, st5) \<Rightarrow> (Returns, callback NoArgument st5))
           | stopped \<Rightarrow> stopped)
      | stopped \<Rightarrow> stopped)"

text \<open>Lines 583 to 654: the second variant does not run esdoc in this hook.\<close>

definition emit_v2 :: "env \<Rightarrow> jsobj \<Rightarrow> string list \<Rightarrow> state \<Rightarrow> completion \<times> state" where
  "emit_v2 e options fileDependencies st =
     (case readConfig_v2 e (locateExecutable_v2 e options st) of
        (Proceeds, st2) \<Rightarrow>
          (case resolveConfig_v2 options fileDependencies st2 of
             (Proceeds, st3) \<Rightarrow> (Returns, callback NoArgument (writeTransient_v2 st3))
           | stopped \<Rightarrow> stopped)
      | stopped \<Rightarrow> stopped)"

subsection \<open>The Process Runner of the second variant\<close>

datatype promise = Pending | Resolved | Rejected exn

text \<open>Lines 550 to 563: the handler of a chunk of standard output, with the text
  received so far.\<close>

definition onStdout_v2 :: "string \<Rightarrow> string \<Rightarrow> state \<Rightarrow> string \<times> state" where
  "onStdout_v2 received d st =
     (let r = received @ d;
          messages = split_on (CHR 0x0A) r
      in if length messages > 1
         then (if filter (\<lambda>m. m \<noteq> []) messages \<noteq> [] then [] else r, printMessages messages st)
         else (r, st))"

text \<open>Lines 567 to 572: here \<^verbatim>\<open>unlinkSync\<close> is not guarded by \<^verbatim>\<open>existsSync\<close>.\<close>

definition removeTmp_v2 :: "bool \<Rightarrow> string option \<Rightarrow> state \<Rightarrow> exn option \<times> state" where
  "removeTmp_v2 preserveTmpFile tmp st =
     (case tmp of
        None \<Rightarrow> (None, st)
      | Some t \<Rightarrow>
          if t \<noteq> [] \<and> \<not> preserveTmpFile
          then (let st1 = console_log ''ESDocPlugin: Removing temporary esdoc config file...'' st
                in case unlinkSync (disk st1) t of
                     Inl x \<Rightarrow> (Some x, st1)
                   | Inr d \<Rightarrow> (None, st1\<lparr>disk := d\<rparr>))
          else (None, st))"

text \<open>
  Lines 566 to 580: the handler of \<^verbatim>\<open>close\<close>. Its parameter is \<^verbatim>\<open>closeCode\<close>; the
  argument of \<^verbatim>\<open>reject\<close> reads \<^verbatim>\<open>code\<close>, which no scope declares, so evaluating it
  raises a ReferenceError before \<^verbatim>\<open>reject\<close> is called. The result is the state of the
  promise and the exception that leaves the handler, if any.
\<close>

definition onClose_v2 :: "bool \<Rightarrow> string option \<Rightarrow> int \<Rightarrow> state \<Rightarrow> (promise \<times> exn option) \<times> state" where
  "onClose_v2 preserveTmpFile tmp closeCode st =
     (case removeTmp_v2 preserveTmpFile tmp st of
        (Some x, st1) \<Rightarrow> ((Pending, Some x), st1)
      | (None, st1) \<Rightarrow>
          if length (esdocErrors st1) > 0
          then ((Pending, Some (ReferenceError ''code is not defined'')),
                fold console_error (esdocErrors st1) st1)
          else ((Resolved, None),
                console_log ''ESDocPlugin: Emitted files to output directory.'' st1))"

text \<open>The events of one run, up to the first \<^verbatim>\<open>close\<close>. A run that never closes leaves
  the promise pending.\<close>

fun handle_v2 :: "bool \<Rightarrow> bool \<Rightarrow> string option \<Rightarrow> string \<Rightarrow> event list \<Rightarrow> state
    \<Rightarrow> (promise \<times> exn option) \<times> state" where
  "handle_v2 showOutput preserveTmpFile tmp received [] st = ((Pending, None), st)"
| "handle_v2 showOutput preserveTmpFile tmp received (StdoutData d # evs) st =
     (if showOutput
      then (case onStdout_v2 received d st of
              (received', st1) \<Rightarrow> handle_v2 showOutput preserveTmpFile tmp received' evs st1)
      else handle_v2 showOutput preserveTmpFile tmp received evs st)"
| "handle_v2 showOutput preserveTmpFile tmp received (StderrData d # evs) st =
     handle_v2 showOutput preserveTmpFile tmp received evs
       (st\<lparr>esdocErrors := esdocErrors st @ [d]\<rparr>)"
| "handle_v2 showOutput preserveTmpFile tmp received (Close closeCode # evs) st =
     onClose_v2 preserveTmpFile tmp closeCode st"

text \<open>
  Lines 542 to 581, called from the done hook (line 665) with the variables of
  \<^verbatim>\<open>apply\<close>. An exception inside the executor of the promise (\<^verbatim>\<open>spawn\<close> on a file that
  is not a string, \<^verbatim>\<open>obj.showOutput\<close> on \<^verbatim>\<open>null\<close>) rejects the promise.
\<close>

definition promiseEsdoc_v2 :: "env \<Rightarrow> jsobj \<Rightarrow> state \<Rightarrow> (promise \<times> exn option) \<times> state" where
  "promiseEsdoc_v2 e options st =
     (case cmd st of
        None \<Rightarrow> ((Rejected (TypeError ''The file argument must be of type string''), None), st)
      | Some file \<Rightarrow>
          (case obj st of
             None \<Rightarrow> ((Rejected (TypeError ''Cannot read property showOutput of null''), None), st)
           | Some ob \<Rightarrow>
               (case emits e file (esdocArgs st) (esdocConfigDir st) (disk st) of
                  (evs, d) \<Rightarrow>
                    (let showOutput = truthy (getProp ob ''showOutput'');
                         st1 = st\<lparr>disk := d\<rparr>;
                         st2 = (if showOutput
                                then console_log ''ESDocPlugin: Beginning output.'' st1 else st1)
                     in handle_v2 showOutput (truthy (getProp options ''preserveTmpFile''))
                          (tmpFile st) [] evs st2))))"

subsection \<open>A compiler to run the hooks on\<close>

text \<open>
  Lines 260 to 279 and 521 to 535: the variables as \<^verbatim>\<open>apply\<close> leaves them, given
  \<^verbatim>\<open>path.resolve(givenDirectory, options.conf)\<close>, its \<^verbatim>\<open>path.dirname\<close> and the disk.
\<close>

definition applied :: "string \<Rightarrow> string \<Rightarrow> fsys \<Rightarrow> state" where
  "applied config configDir d =
     \<lparr>esdocConfig = config, esdocConfigDir = configDir, obj = Some [], files = [],
      tmpFile = None, cmd = None, esdocArgs = [], esdocErrors = [], disk = d,
      console_out = [], console_err = [], callbacks = []\<rparr>"

text \<open>
  The loader of the closed examples. Node takes the JSON loader for a file whose name
  ends in \<^verbatim>\<open>.json\<close> after at least one other character, and compiles a file of any
  other name in the examples (they end in \<^verbatim>\<open>.tmp\<close>) as JavaScript. As JSON, an object
  document is its object. As JavaScript, an object document with a property is a
  syntax error (a block that starts with a string and a colon), and the empty object
  is an empty block, whose module exports an empty object. The text \<^verbatim>\<open>null\<close>, which
  is what the plugin writes for \<^verbatim>\<open>null\<close>, is \<^verbatim>\<open>null\<close> as JSON and an expression as
  JavaScript. Every other text on the disks of the examples is neither JSON nor
  JavaScript.
\<close>

definition loadsAsJson :: "string \<Rightarrow> bool" where
  "loadsAsJson filepath =
     (let name = parse_base filepath in suffix ''.json'' name \<and> 5 < length name)"

definition exampleRequire :: "fsys \<Rightarrow> string \<Rightarrow> exn + jsobj option" where
  "exampleRequire fsy filepath =
     (case fsy filepath of
        None \<Rightarrow> Inl (JsError ''Cannot find module'')
      | Some (JsonDoc ob) \<Rightarrow>
          if loadsAsJson filepath then Inr (Some ob)
          else if ob = [] then Inr (Some [])
          else Inl (SyntaxError filepath)
      | Some (Text t) \<Rightarrow>
          if t = ''null'' then (if loadsAsJson filepath then Inr None else Inr (Some []))
          else Inl (SyntaxError filepath))"

text \<open>
  The process of the closed examples: Linux, started in \<^verbatim>\<open>/proj\<close>, with directories that
  are absolute and normal, so that joining a directory and a relative path is putting a
  separator between them; esdoc reports \<open>p\<close> (or delivers \<open>evs\<close>) and leaves the disk as
  it is.
\<close>

definition exampleEnv :: "proc \<Rightarrow> event list \<Rightarrow> env" where
  "exampleEnv p evs =
     \<lparr>platform = ''linux'', cwd = ''/proj'',
      dirname = ''/proj/node_modules/esdoc-webpack-plugin/src'',
      resolveJoin = (\<lambda>d f. d @ ''/'' @ f),
      runs = (\<lambda>file args dir fsy. (p, fsy)),
      emits = (\<lambda>file args dir fsy. (evs, fsy)),
      requires = exampleRequire\<rparr>"

definition quietRun :: proc where
  "quietRun = Proc (Some []) (Some []) (Some 0)"

subsection \<open>The two outcomes of resolving the configuration\<close>

text \<open>
  The spec's two ways to an effective configuration, as outcomes \<open>r\<close> of the resolving
  stage started in \<open>st\<close> with the object \<open>ob\<close> read from the file. Either the object is
  taken as authoritative: the options are merged over it, and nothing is collected or
  resolved. Or the source is inferred: the dependencies are collected, and the resolver
  is run on them; its exception leaves the hook, its result becomes the source under
  the merged options. The line printed tells the two apart.
\<close>

definition usesFileConfig :: "jsobj \<Rightarrow> jsobj \<Rightarrow> state \<Rightarrow> completion \<times> state \<Rightarrow> bool" where
  "usesFileConfig ob options st r =
     (r = (Proceeds,
           (console_log ''ESDocPlugin: Pulling data from the configuration file.'' st)
             \<lparr>obj := Some (spread ob options)\<rparr>))"

definition infersFromDependencies ::
    "(string list \<Rightarrow> string list \<Rightarrow> string list) \<Rightarrow> (string list \<Rightarrow> exn + string)
      \<Rightarrow> jsobj \<Rightarrow> jsobj \<Rightarrow> string list \<Rightarrow> state \<Rightarrow> completion \<times> state \<Rightarrow> bool" where
  "infersFromDependencies collector resolver ob options fileDependencies st r =
     (console_out (snd r) = console_out st @ [''ESDocPlugin: Provided configuration either not found or does not contain an includes key. Generating from the bundles.'']
      \<and> files (snd r) = collector fileDependencies (files st)
      \<and> (case resolver (collector fileDependencies (files st)) of
            Inl x \<Rightarrow> fst r = Throws x
          | Inr shared \<Rightarrow>
              fst r = Proceeds
              \<and> obj (snd r) = Some (spread (setProp ''source'' (JStr shared) ob) options)))"

text \<open>The configuration file of the spec's example, and an executable.\<close>

definition fileConfig :: jsobj where
  "fileConfig = [(''source'', JStr ''a''), (''includes'', JArr [JStr ''x'']),
                 (''destination'', JStr ''d1'')]"

definition esdocBin :: "string \<times> fcontent" where
  "esdocBin = (''/proj/node_modules/.bin/esdoc'', Text ''#!/usr/bin/env node'')"

section \<open>Properties\<close>

subsection \<open>Objects\<close>

lemma map_of_fold_setProp:
  "map_of (fold (\<lambda>k acc. setProp k (f k) acc) ks a) k' =
     (if k' \<in> set ks then Some (f k') else map_of a k')"
  by (induction ks arbitrary: a) (auto simp: setProp_def update_conv)

lemma getProp_spread:
  "getProp (spread a b) k = (if k \<in> fst ` set b then getProp b k else getProp a k)"
proof -
  have keys: "set (ownKeys b) = fst ` set b"
    by (simp add: ownKeys_def)
  have some: "k \<in> fst ` set b \<Longrightarrow> map_of b k = Some (getProp b k)"
    by (cases "map_of b k") (auto simp: getProp_def map_of_eq_None_iff)
  show ?thesis
    unfolding spread_def getProp_def [of _ k] map_of_fold_setProp keys
    using some by (simp add: getProp_def)
qed

subsection \<open>The Common-Prefix Resolver\<close>

lemma common2_prefix: "prefix a b \<Longrightarrow> common2 a b = a"
proof (induction a arbitrary: b)
  case Nil
  then show ?case by simp
next
  case (Cons x a)
  then show ?case by (cases b) auto
qed

lemma common2_diverge:
  "take j a = take j b \<Longrightarrow> j < length a \<Longrightarrow> j < length b \<Longrightarrow> a ! j \<noteq> b ! j
     \<Longrightarrow> common2 a b = take j a"
proof (induction j arbitrary: a b)
  case 0
  then show ?case by (cases a; cases b) auto
next
  case (Suc j)
  then show ?case by (cases a; cases b) auto
qed

lemma common2_left: "prefix (common2 a b) a"
  by (induction a b rule: common2.induct) auto

lemma common2_right: "prefix (common2 a b) b"
  by (induction a b rule: common2.induct) auto

lemma common2_greatest: "prefix q a \<Longrightarrow> prefix q b \<Longrightarrow> prefix q (common2 a b)"
proof (induction a b arbitrary: q rule: common2.induct)
  case (1 x xs y ys)
  then show ?case by (cases q) auto
qed simp_all

lemma scan_bounds: "j \<le> k \<Longrightarrow> j \<le> scan si s0 j k \<and> scan si s0 j k \<le> k"
proof (induction si s0 j k rule: scan.induct)
  case (1 si s0 j k)
  then show ?case by (subst scan.simps, subst (2) scan.simps) auto
qed

lemma scan_common2:
  "j \<le> k \<Longrightarrow> k \<le> length s0 \<Longrightarrow> k \<le> length si \<Longrightarrow> take j si = take j s0
     \<Longrightarrow> take (scan si s0 j k) s0 = common2 (take k s0) si"
proof (induction si s0 j k rule: scan.induct)
  case (1 si s0 j k)
  show ?case
  proof (cases "j < k")
    case True
    show ?thesis
    proof (cases "si ! j = s0 ! j")
      case same: True
      have "take (Suc j) si = take (Suc j) s0"
        using True 1(3,4,5) same by (simp add: take_Suc_conv_app_nth)
      with 1 True same show ?thesis
        by (subst scan.simps) (simp add: charAt_def)
    next
      case False
      have "common2 (take k s0) si = take j (take k s0)"
        using True 1(3,4,5) False by (intro common2_diverge) (auto simp: min_def)
      with True False 1(3,4) show ?thesis
        by (subst scan.simps) (simp add: charAt_def min_def)
    qed
  next
    case False
    with 1(2) have jk: "j = k" by simp
    have "prefix (take k s0) si"
      using 1(5) jk by (metis take_is_prefix)
    then show ?thesis using jk by (subst scan.simps) (simp add: common2_prefix)
  qed
qed

lemma shrink_le: "shrink s0 si k \<le> k"
  using scan_bounds [of 0 "min k (length si)" si s0] by (simp add: shrink_def)

lemma common2_take: "common2 (take k a) b = take k (common2 a b)"
proof (induction a b arbitrary: k rule: common2.induct)
  case (1 x xs y ys)
  then show ?case by (cases k) auto
qed simp_all

lemma common2_length_right: "length (common2 a b) \<le> length b"
  using common2_right [of a b] by (simp add: prefix_length_le)

lemma shrink_common2:
  assumes "k \<le> length s0"
  shows "take (shrink s0 si k) s0 = common2 (take k s0) si"
proof -
  have "take (scan si s0 0 (min k (length si))) s0 = common2 (take (min k (length si)) s0) si"
    using assms by (intro scan_common2) auto
  also have "\<dots> = take (min k (length si)) (common2 s0 si)"
    by (rule common2_take)
  also have "\<dots> = take k (common2 s0 si)"
    using common2_length_right [of s0 si] by (simp add: min_def)
  also have "\<dots> = common2 (take k s0) si"
    by (rule common2_take [symmetric])
  finally show ?thesis by (simp add: shrink_def)
qed

lemma fold_shrink:
  "k \<le> length s0 \<Longrightarrow>
     fold (shrink s0) rest k \<le> length s0 \<and>
     take (fold (shrink s0) rest k) s0 = fold (\<lambda>p acc. common2 acc p) rest (take k s0)"
proof (induction rest arbitrary: k)
  case Nil
  then show ?case by simp
next
  case (Cons si rest)
  have le: "shrink s0 si k \<le> length s0"
    using shrink_le [of s0 si k] Cons.prems by simp
  show ?case
    using Cons.IH [OF le] shrink_common2 [OF Cons.prems] by simp
qed

lemma substring_take: "substring s 0 (int k) = take k s"
  by (simp add: substring_def Let_def min_def max_def)

lemma takeWhile_rev_short:
  "c \<in> set p \<Longrightarrow> length (takeWhile (\<lambda>x. x \<noteq> c) (rev p)) < length p"
proof -
  assume "c \<in> set p"
  then have "c \<in> set (rev p)" by simp
  then have ne: "takeWhile (\<lambda>x. x \<noteq> c) (rev p) \<noteq> rev p"
    by (auto simp: takeWhile_eq_all_conv)
  have le: "length (takeWhile (\<lambda>x. x \<noteq> c) (rev p)) \<le> length (rev p)"
    by (rule length_takeWhile_le)
  have "length (takeWhile (\<lambda>x. x \<noteq> c) (rev p)) \<noteq> length (rev p)"
  proof
    assume eq: "length (takeWhile (\<lambda>x. x \<noteq> c) (rev p)) = length (rev p)"
    have "takeWhile (\<lambda>x. x \<noteq> c) (rev p) @ dropWhile (\<lambda>x. x \<noteq> c) (rev p) = rev p @ []"
      by simp
    with eq have "takeWhile (\<lambda>x. x \<noteq> c) (rev p) = rev p"
      using append_eq_append_conv by blast
    with ne show False by simp
  qed
  with le show ?thesis by simp
qed

lemma cut_take:
  "cutAtLastSeparator p =
     take (length p - Suc (length (takeWhile (\<lambda>x. x \<noteq> CHR ''/'') (rev p)))) p"
proof -
  have "dropWhile (\<lambda>x. x \<noteq> CHR ''/'') (rev p)
          = drop (length (takeWhile (\<lambda>x. x \<noteq> CHR ''/'') (rev p))) (rev p)"
    by (simp add: dropWhile_eq_drop)
  then show ?thesis
    unfolding cutAtLastSeparator_def by (simp add: rev_drop)
qed

lemma cut_substring: "substring p 0 (lastIndexOf p (CHR ''/'')) = cutAtLastSeparator p"
proof (cases "CHR ''/'' \<in> set p")
  case True
  let ?m = "length (takeWhile (\<lambda>x. x \<noteq> CHR ''/'') (rev p))"
  have lt: "?m < length p"
    using True by (rule takeWhile_rev_short)
  have idx: "lastIndexOf p (CHR ''/'') = int (length p - Suc ?m)"
    using True lt by (simp add: lastIndexOf_def)
  show ?thesis
    unfolding idx substring_take cut_take ..
next
  case False
  then have all: "takeWhile (\<lambda>x. x \<noteq> CHR ''/'') (rev p) = rev p"
    by (auto simp: takeWhile_eq_all_conv)
  have "cutAtLastSeparator p = []"
    unfolding cut_take all by simp
  moreover have "substring p 0 (lastIndexOf p (CHR ''/'')) = []"
    using False by (simp add: substring_def lastIndexOf_def Let_def)
  ultimately show ?thesis by simp
qed

lemma resolver_refines:
  assumes "s \<noteq> []"
  shows "getLongestCommonSharedDirectory s = Inr (cutAtLastSeparator (commonLeadingSubstring s))"
proof -
  from assms obtain s0 rest where s: "s = s0 # rest"
    by (cases s) auto
  have "take (fold (shrink s0) rest (length s0)) s0 = fold (\<lambda>p acc. common2 acc p) rest s0"
    using fold_shrink [of "length s0" s0 rest] by simp
  then show ?thesis
    unfolding s getLongestCommonSharedDirectory_def commonLeadingSubstring_def
    by (simp add: Let_def substring_take cut_substring)
qed

lemma fold_common2_prefix:
  "prefix (fold (\<lambda>p acc. common2 acc p) rest a) a"
proof (induction rest arbitrary: a)
  case Nil
  then show ?case by simp
next
  case (Cons p rest)
  have "prefix (fold (\<lambda>p acc. common2 acc p) rest (common2 a p)) (common2 a p)"
    by (rule Cons.IH)
  then show ?case
    using common2_left [of a p] by (auto intro: prefix_order.trans)
qed

lemma fold_common2_each:
  "p \<in> set rest \<Longrightarrow> prefix (fold (\<lambda>p acc. common2 acc p) rest a) p"
proof (induction rest arbitrary: a)
  case Nil
  then show ?case by simp
next
  case (Cons x rest)
  show ?case
  proof (cases "p = x")
    case True
    have "prefix (fold (\<lambda>p acc. common2 acc p) rest (common2 a x)) (common2 a x)"
      by (rule fold_common2_prefix)
    then show ?thesis
      using common2_right [of a x] True by (auto intro: prefix_order.trans)
  next
    case False
    with Cons.prems have "p \<in> set rest" by simp
    then show ?thesis using Cons.IH by simp
  qed
qed

lemma fold_common2_greatest:
  "prefix q a \<Longrightarrow> (\<And>p. p \<in> set rest \<Longrightarrow> prefix q p)
     \<Longrightarrow> prefix q (fold (\<lambda>p acc. common2 acc p) rest a)"
proof (induction rest arbitrary: a)
  case Nil
  then show ?case by simp
next
  case (Cons x rest)
  have "prefix q (common2 a x)"
    using Cons.prems by (intro common2_greatest) auto
  then show ?case
    using Cons.IH [of "common2 a x"] Cons.prems(2) by simp
qed

lemma common_all:
  "s \<noteq> [] \<Longrightarrow> p \<in> set s \<Longrightarrow> prefix (commonLeadingSubstring s) p"
  by (cases s) (auto simp: commonLeadingSubstring_def fold_common2_prefix fold_common2_each)

lemma common_longest:
  "s \<noteq> [] \<Longrightarrow> (\<And>p. p \<in> set s \<Longrightarrow> prefix q p) \<Longrightarrow> prefix q (commonLeadingSubstring s)"
  by (cases s) (auto simp: commonLeadingSubstring_def intro: fold_common2_greatest)

lemma cut_directory:
  assumes "CHR ''/'' \<in> set p"
  shows "\<exists>name. p = cutAtLastSeparator p @ CHR ''/'' # name \<and> CHR ''/'' \<notin> set name"
proof -
  let ?P = "\<lambda>x. x \<noteq> CHR ''/''"
  have ne: "dropWhile ?P (rev p) \<noteq> []"
    using assms by (simp add: dropWhile_eq_Nil_conv)
  then obtain y ys where dw: "dropWhile ?P (rev p) = y # ys"
    by (cases "dropWhile ?P (rev p)") auto
  have y: "y = CHR ''/''"
    using hd_dropWhile [OF ne] dw by simp
  have "rev p = takeWhile ?P (rev p) @ y # ys"
    using takeWhile_dropWhile_id [of ?P "rev p"] dw by simp
  then have "p = rev ys @ y # rev (takeWhile ?P (rev p))"
    by (metis rev_append rev.simps(2) rev_rev_ident append.assoc append_Cons append_Nil)
  moreover have "cutAtLastSeparator p = rev ys"
    by (simp add: cutAtLastSeparator_def dw)
  moreover have "CHR ''/'' \<notin> set (rev (takeWhile ?P (rev p)))"
    by (auto dest: set_takeWhileD)
  ultimately show ?thesis using y by metis
qed

lemma cut_none: "CHR ''/'' \<notin> set (drop 1 p) \<Longrightarrow> cutAtLastSeparator p = []"
proof (cases p)
  case Nil
  then show ?thesis by (simp add: cutAtLastSeparator_def)
next
  case (Cons x xs)
  assume "CHR ''/'' \<notin> set (drop 1 p)"
  then have "CHR ''/'' \<notin> set (rev xs)" using Cons by simp
  have "dropWhile (\<lambda>c. c \<noteq> CHR ''/'') (rev xs @ [x]) = dropWhile (\<lambda>c. c \<noteq> CHR ''/'') [x]"
    using \<open>CHR ''/'' \<notin> set (rev xs)\<close> by (intro dropWhile_append2) auto
  then show ?thesis
    using Cons by (simp add: cutAtLastSeparator_def)
qed

lemma resolver_v2_many:
  "getLongestCommonSharedDirectory_v2 (s0 # s1 # rest) = Inl (TypeError ''Math.Min is not a function'')"
  by (simp add: getLongestCommonSharedDirectory_v2_def)

lemma resolver_v2_single:
  "getLongestCommonSharedDirectory_v2 [s0] = getLongestCommonSharedDirectory [s0]"
  by (simp add: getLongestCommonSharedDirectory_v2_def getLongestCommonSharedDirectory_def)

text \<open>
  The resolver of the first variant does what the spec says of it: on a list that is
  not empty it returns the longest text that every path starts with, cut before its
  last separator. When that text holds a separator, the result followed by a separator
  starts every path, so it names a directory of each; when the text holds no separator
  after its first character, the result is empty.
\<close>

lemma resolver_directory:
  assumes "s \<noteq> []"
  shows "\<exists>common r.
           getLongestCommonSharedDirectory s = Inr r
         \<and> (\<forall>p \<in> set s. prefix common p)
         \<and> (\<forall>q. (\<forall>p \<in> set s. prefix q p) \<longrightarrow> prefix q common)
         \<and> r = cutAtLastSeparator common
         \<and> (CHR ''/'' \<in> set common \<longrightarrow> (\<forall>p \<in> set s. prefix (r @ ''/'') p))
         \<and> (CHR ''/'' \<notin> set (drop 1 common) \<longrightarrow> r = [])"
proof -
  let ?c = "commonLeadingSubstring s"
  have dir: "prefix (cutAtLastSeparator ?c @ ''/'') p" if sep: "CHR ''/'' \<in> set ?c" and p: "p \<in> set s" for p
  proof -
    from cut_directory [OF sep] obtain name where "?c = cutAtLastSeparator ?c @ CHR ''/'' # name"
      by blast
    then have "prefix (cutAtLastSeparator ?c @ ''/'') ?c"
      by (metis append.assoc append_Cons append_Nil prefixI)
    moreover have "prefix ?c p"
      using assms p by (rule common_all)
    ultimately show ?thesis
      by (rule prefix_order.trans)
  qed
  have "getLongestCommonSharedDirectory s = Inr (cutAtLastSeparator ?c)"
    using assms by (rule resolver_refines)
  moreover have "\<forall>p \<in> set s. prefix ?c p"
    using assms by (auto intro: common_all)
  moreover have "\<forall>q. (\<forall>p \<in> set s. prefix q p) \<longrightarrow> prefix q ?c"
    using assms by (auto intro: common_longest)
  moreover have "CHR ''/'' \<in> set ?c \<longrightarrow> (\<forall>p \<in> set s. prefix (cutAtLastSeparator ?c @ ''/'') p)"
    using dir by blast
  moreover have "CHR ''/'' \<notin> set (drop 1 ?c) \<longrightarrow> cutAtLastSeparator ?c = []"
    using cut_none by blast
  ultimately show ?thesis by blast
qed

text \<open>
  C3. The claim: for every list of absolute paths that is not empty,
  \<^verbatim>\<open>getLongestCommonSharedDirectory\<close> returns the longest common leading substring of
  the paths cut back to the last separator, and the spec's three paths give \<^verbatim>\<open>/a\<close>.
  The first variant does (\<open>resolver_directory\<close>); the second variant raises a
  TypeError on the spec's own example, as on every list of two paths or more
  (\<open>resolver_v2_many\<close>).
\<close>

theorem resolver_v2_raises_on_spec_example:
  "getLongestCommonSharedDirectory_v2 [''/a/b/index.js'', ''/a/b/c/index.js'', ''/a/bb/index.js'']
     = Inl (TypeError ''Math.Min is not a function'')
   \<and> getLongestCommonSharedDirectory [''/a/b/index.js'', ''/a/b/c/index.js'', ''/a/bb/index.js'']
     = Inr ''/a''"
  by (simp add: getLongestCommonSharedDirectory_v2_def) code_simp

subsection \<open>The Executable Locator\<close>

lemma find_app: "find P (xs @ ys) = (case find P xs of None \<Rightarrow> find P ys | Some x \<Rightarrow> Some x)"
  by (induction xs) auto

lemma someDir_find:
  "someDir rj fsy filename dirs = find (existsSync fsy) (map (\<lambda>dirname. rj dirname filename) dirs)"
  by (induction dirs) (auto simp: Let_def)

text \<open>
  C4. For every list of candidate file names and every list of directories,
  \<^verbatim>\<open>lookupFile\<close> returns the first path that exists among the resolved joins of a
  directory and a file name, taken with the file names in the outer loop and the
  directories in the inner loop, and \<^verbatim>\<open>null\<close> when none of them exists. This holds
  for any resolution of joins and any disk, and so for both variants, whose text is
  the same. In the spec's example the first file name is missing from \<^verbatim>\<open>/p\<close> and
  present in \<^verbatim>\<open>/q\<close>, and the second file name is present in \<^verbatim>\<open>/p\<close>: the result is
  the first file name in \<^verbatim>\<open>/q\<close>.
\<close>

theorem lookupFile_first:
  "lookupFile rj fsy names dirs = find (existsSync fsy) (candidates rj names dirs)
   \<and> lookupFile (\<lambda>d f. d @ ''/'' @ f)
         [''/q/x/tool'' \<mapsto> Text [], ''/p/y/tool.js'' \<mapsto> Text []]
         [''x/tool'', ''y/tool.js''] [''/p'', ''/q'']
       = Some ''/q/x/tool''"
proof
  show "lookupFile rj fsy names dirs = find (existsSync fsy) (candidates rj names dirs)"
    by (induction names) (auto simp: candidates_def find_app someDir_find split: option.splits)
  show "lookupFile (\<lambda>d f. d @ ''/'' @ f)
         [''/q/x/tool'' \<mapsto> Text [], ''/p/y/tool.js'' \<mapsto> Text []]
         [''x/tool'', ''y/tool.js''] [''/p'', ''/q'']
       = Some ''/q/x/tool''"
    by code_simp
qed

subsection \<open>What each stage of the hooks leaves alone\<close>

lemma console_log_frame [simp]:
  "callbacks (console_log m st) = callbacks st"
  "obj (console_log m st) = obj st"
  "files (console_log m st) = files st"
  "disk (console_log m st) = disk st"
  "tmpFile (console_log m st) = tmpFile st"
  "cmd (console_log m st) = cmd st"
  "esdocConfig (console_log m st) = esdocConfig st"
  "esdocConfigDir (console_log m st) = esdocConfigDir st"
  "esdocArgs (console_log m st) = esdocArgs st"
  "esdocErrors (console_log m st) = esdocErrors st"
  "console_err (console_log m st) = console_err st"
  "console_out (console_log m st) = console_out st @ [m]"
  by (simp_all add: console_log_def)

lemma callback_frame [simp]:
  "callbacks (callback a st) = callbacks st @ [a]"
  "obj (callback a st) = obj st"
  "files (callback a st) = files st"
  "disk (callback a st) = disk st"
  "tmpFile (callback a st) = tmpFile st"
  "cmd (callback a st) = cmd st"
  "esdocConfig (callback a st) = esdocConfig st"
  "esdocConfigDir (callback a st) = esdocConfigDir st"
  "esdocArgs (callback a st) = esdocArgs st"
  "esdocErrors (callback a st) = esdocErrors st"
  "console_err (callback a st) = console_err st"
  "console_out (callback a st) = console_out st"
  by (simp_all add: callback_def)

lemma locate_frame [simp]:
  "obj (locateExecutable e options st) = obj st"
  "files (locateExecutable e options st) = files st"
  "disk (locateExecutable e options st) = disk st"
  "tmpFile (locateExecutable e options st) = tmpFile st"
  "esdocConfig (locateExecutable e options st) = esdocConfig st"
  by (simp_all add: locateExecutable_def Let_def)

lemma locate_v2_frame [simp]:
  "obj (locateExecutable_v2 e options st) = obj st"
  "files (locateExecutable_v2 e options st) = files st"
  "disk (locateExecutable_v2 e options st) = disk st"
  "tmpFile (locateExecutable_v2 e options st) = tmpFile st"
  "esdocConfig (locateExecutable_v2 e options st) = esdocConfig st"
  by (simp_all add: locateExecutable_v2_def Let_def)

lemma readConfig_proceeds: "fst (readConfig st) = Proceeds"
  by (simp add: readConfig_def readConfigFile_def readJsonSync_def
      split: option.splits fcontent.splits)

lemma readConfig_parsed:
  "esdocConfig st \<noteq> [] \<Longrightarrow> disk st (esdocConfig st) = Some (JsonDoc ob)
     \<Longrightarrow> readConfig st = (Proceeds, st\<lparr>obj := Some ob\<rparr>)"
  by (simp add: readConfig_def readConfigFile_def readJsonSync_def existsSync_def)

lemma readConfig_v2_parsed:
  "existsSync (disk st) (esdocConfig st) \<Longrightarrow> requires e (disk st) (esdocConfig st) = Inr v
     \<Longrightarrow> readConfig_v2 e st = (Proceeds, st\<lparr>obj := v\<rparr>)"
  by (simp add: readConfig_v2_def readConfigFile_v2_def)

lemma readConfig_unparsed:
  "esdocConfig st \<noteq> [] \<Longrightarrow> disk st (esdocConfig st) = Some (Text t)
     \<Longrightarrow> readConfig st = (Proceeds, st\<lparr>obj := None\<rparr>)"
  by (simp add: readConfig_def readConfigFile_def readJsonSync_def existsSync_def)

lemma readConfig_v2_unparsed:
  "existsSync (disk st) (esdocConfig st) \<Longrightarrow> requires e (disk st) (esdocConfig st) = Inl x
     \<Longrightarrow> readConfig_v2 e st = (Returns, callback (WithError x) st)"
  by (simp add: readConfig_v2_def readConfigFile_v2_def)

lemma readConfig_frame:
  assumes "readConfig st = (c, st')"
  shows "callbacks st' = callbacks st \<and> disk st' = disk st \<and> tmpFile st' = tmpFile st
         \<and> files st' = files st"
  using assms
  by (auto simp: readConfig_def readConfigFile_def readJsonSync_def
      split: if_splits option.splits fcontent.splits)

lemma readConfig_v2_frame:
  assumes "readConfig_v2 e st = (Proceeds, st')"
  shows "callbacks st' = callbacks st \<and> disk st' = disk st \<and> tmpFile st' = tmpFile st
         \<and> files st' = files st"
  using assms
  by (auto simp: readConfig_v2_def readConfigFile_v2_def
      split: if_splits option.splits fcontent.splits sum.splits)

lemma resolveConfig_merged:
  assumes "resolveConfig options deps st = (Proceeds, st')"
  shows "\<exists>base. obj st' = Some (spread base options)"
  using assms
  by (auto simp: resolveConfig_def Let_def split: option.splits if_splits sum.splits)

lemma resolveConfig_v2_merged:
  assumes "resolveConfig_v2 options deps st = (Proceeds, st')"
  shows "\<exists>base. obj st' = Some (spread base options)"
  using assms
  by (auto simp: resolveConfig_v2_def Let_def split: option.splits if_splits sum.splits)

lemma writeTransient_disk:
  "disk (writeTransient st) (transientPath (esdocConfig st)) = Some (stringify (obj st))"
  by (simp add: writeTransient_def Let_def writeFileSync_def)

lemma writeTransient_v2_disk:
  "disk (writeTransient_v2 st) (transientPath_v2 (esdocConfig st)) = Some (stringify (obj st))"
  by (simp add: writeTransient_v2_def Let_def writeFileSync_def)

subsection \<open>Merging the options over the configuration\<close>

text \<open>
  C7. For every key of the instance options, the effective configuration holds the
  value of the instance options: whenever the resolving stage of either variant
  goes on to the writing stage, the object it leaves in \<^verbatim>\<open>obj\<close>, which is the
  document then written to the transient file, reads at that key what the options
  read there. This covers the branch that takes the file's object and the branch that
  infers the source.
\<close>

theorem instance_options_override:
  assumes "k \<in> fst ` set options"
  shows "(resolveConfig options deps st = (Proceeds, st') \<longrightarrow>
           (\<exists>eff. obj st' = Some eff \<and> getProp eff k = getProp options k
              \<and> disk (writeTransient st') (transientPath (esdocConfig st')) = Some (JsonDoc eff)))
       \<and> (resolveConfig_v2 options deps st = (Proceeds, st') \<longrightarrow>
           (\<exists>eff. obj st' = Some eff \<and> getProp eff k = getProp options k
              \<and> disk (writeTransient_v2 st') (transientPath_v2 (esdocConfig st')) = Some (JsonDoc eff)))"
proof (intro conjI impI)
  assume "resolveConfig options deps st = (Proceeds, st')"
  then obtain base where "obj st' = Some (spread base options)"
    using resolveConfig_merged by blast
  then show "\<exists>eff. obj st' = Some eff \<and> getProp eff k = getProp options k
              \<and> disk (writeTransient st') (transientPath (esdocConfig st')) = Some (JsonDoc eff)"
    using assms by (simp add: getProp_spread writeTransient_disk stringify_def)
next
  assume "resolveConfig_v2 options deps st = (Proceeds, st')"
  then obtain base where "obj st' = Some (spread base options)"
    using resolveConfig_v2_merged by blast
  then show "\<exists>eff. obj st' = Some eff \<and> getProp eff k = getProp options k
              \<and> disk (writeTransient_v2 st') (transientPath_v2 (esdocConfig st')) = Some (JsonDoc eff)"
    using assms by (simp add: getProp_spread writeTransient_v2_disk stringify_def)
qed

text \<open>
  The spec's example: the file's configuration has \<^verbatim>\<open>destination: 'd1'\<close>, the plugin
  is constructed with \<^verbatim>\<open>{destination: 'd2'}\<close>, and the effective destination is
  \<^verbatim>\<open>'d2'\<close>.
\<close>

theorem instance_options_override_witness:
  "''destination'' \<in> fst ` set (pluginOptions [(''destination'', JStr ''d2'')])
   \<and> fst (resolveConfig (pluginOptions [(''destination'', JStr ''d2'')]) []
            ((applied ''/p/.esdoc.json'' ''/p'' Map.empty)\<lparr>obj := Some fileConfig\<rparr>)) = Proceeds
   \<and> (\<exists>eff. obj (snd (resolveConfig (pluginOptions [(''destination'', JStr ''d2'')]) []
                   ((applied ''/p/.esdoc.json'' ''/p'' Map.empty)\<lparr>obj := Some fileConfig\<rparr>))) = Some eff
          \<and> getProp eff ''destination'' = JStr ''d2'')
   \<and> fst (resolveConfig_v2 (pluginOptions [(''destination'', JStr ''d2'')]) []
            ((applied ''/p/.esdoc.json'' ''/p'' Map.empty)\<lparr>obj := Some fileConfig\<rparr>)) = Proceeds
   \<and> (\<exists>eff. obj (snd (resolveConfig_v2 (pluginOptions [(''destination'', JStr ''d2'')]) []
                   ((applied ''/p/.esdoc.json'' ''/p'' Map.empty)\<lparr>obj := Some fileConfig\<rparr>))) = Some eff
          \<and> getProp eff ''destination'' = JStr ''d2'')"
proof -
  let ?o = "pluginOptions [(''destination'', JStr ''d2'')]"
  let ?s = "(applied ''/p/.esdoc.json'' ''/p'' Map.empty)\<lparr>obj := Some fileConfig\<rparr>"
  have k: "''destination'' \<in> fst ` set ?o"
    by code_simp
  have v: "getProp ?o ''destination'' = JStr ''d2''"
    by code_simp
  have p1: "fst (resolveConfig ?o [] ?s) = Proceeds"
    by code_simp
  then have r1: "resolveConfig ?o [] ?s = (Proceeds, snd (resolveConfig ?o [] ?s))"
    by (metis prod.collapse)
  have p2: "fst (resolveConfig_v2 ?o [] ?s) = Proceeds"
    by code_simp
  then have r2: "resolveConfig_v2 ?o [] ?s = (Proceeds, snd (resolveConfig_v2 ?o [] ?s))"
    by (metis prod.collapse)
  from instance_options_override [OF k, of "[]" ?s "snd (resolveConfig ?o [] ?s)"] r1
  obtain eff1 where e1: "obj (snd (resolveConfig ?o [] ?s)) = Some eff1"
    "getProp eff1 ''destination'' = getProp ?o ''destination''"
    by blast
  from instance_options_override [OF k, of "[]" ?s "snd (resolveConfig_v2 ?o [] ?s)"] r2
  obtain eff2 where e2: "obj (snd (resolveConfig_v2 ?o [] ?s)) = Some eff2"
    "getProp eff2 ''destination'' = getProp ?o ''destination''"
    by blast
  from k p1 p2 v e1 e2 show ?thesis by auto
qed

subsection \<open>When the file's configuration is authoritative\<close>

lemma resolveConfig_usable:
  "obj st = Some ob \<Longrightarrow> truthy (getProp ob ''source'') \<and> truthy (getProp ob ''includes'')
     \<Longrightarrow> usesFileConfig ob options st (resolveConfig options deps st)
         \<and> usesFileConfig ob options st (resolveConfig_v2 options deps st)"
  by (simp add: resolveConfig_def resolveConfig_v2_def usesFileConfig_def)

lemma resolveConfig_unusable:
  "obj st = Some ob \<Longrightarrow> \<not> (truthy (getProp ob ''source'') \<and> truthy (getProp ob ''includes''))
     \<Longrightarrow> infersFromDependencies collect getLongestCommonSharedDirectory ob options deps st
           (resolveConfig options deps st)"
  by (auto simp: resolveConfig_def infersFromDependencies_def Let_def split: sum.splits)

lemma resolveConfig_v2_unusable:
  "obj st = Some ob \<Longrightarrow> \<not> (truthy (getProp ob ''source'') \<and> truthy (getProp ob ''includes''))
     \<Longrightarrow> infersFromDependencies collect_v2 getLongestCommonSharedDirectory_v2 ob options deps st
           (resolveConfig_v2 options deps st)"
  by (auto simp: resolveConfig_v2_def infersFromDependencies_def Let_def split: sum.splits)

lemma outcomes_exclusive:
  "usesFileConfig ob options st r
     \<Longrightarrow> \<not> infersFromDependencies collector resolver ob' options' deps st r"
  by (auto simp: usesFileConfig_def infersFromDependencies_def)

text \<open>
  C10. A configuration object parsed from the file on disk is taken as authoritative
  exactly when its \<^verbatim>\<open>source\<close> and its \<^verbatim>\<open>includes\<close> are both truthy, in both
  variants; otherwise the source is inferred from the dependencies. In particular an
  empty \<^verbatim>\<open>source\<close>, or an \<^verbatim>\<open>includes\<close> that is \<^verbatim>\<open>null\<close>, \<^verbatim>\<open>0\<close> or \<^verbatim>\<open>false\<close>, leads to
  inference although the object has both fields. The first variant parses the file
  itself, whatever its name; the second variant has the object from \<^verbatim>\<open>require\<close>, and
  the statement is about the cycles in which \<^verbatim>\<open>require\<close> returns it.
\<close>

theorem authoritative_iff_truthy:
  assumes "esdocConfig st \<noteq> []" and "disk st (esdocConfig st) = Some (JsonDoc ob)"
  shows "\<exists>st1. readConfig st = (Proceeds, st1)
           \<and> (requires e (disk st) (esdocConfig st) = Inr (Some ob)
                \<longrightarrow> readConfig_v2 e st = (Proceeds, st1))
           \<and> obj st1 = Some ob
           \<and> usesFileConfig ob options st1 (resolveConfig options deps st1)
               = (truthy (getProp ob ''source'') \<and> truthy (getProp ob ''includes''))
           \<and> usesFileConfig ob options st1 (resolveConfig_v2 options deps st1)
               = (truthy (getProp ob ''source'') \<and> truthy (getProp ob ''includes''))
           \<and> infersFromDependencies collect getLongestCommonSharedDirectory ob options deps st1
                 (resolveConfig options deps st1)
               = (\<not> (truthy (getProp ob ''source'') \<and> truthy (getProp ob ''includes'')))
           \<and> infersFromDependencies collect_v2 getLongestCommonSharedDirectory_v2 ob options deps st1
                 (resolveConfig_v2 options deps st1)
               = (\<not> (truthy (getProp ob ''source'') \<and> truthy (getProp ob ''includes'')))
           \<and> ((getProp ob ''source'' = JStr [] \<or> getProp ob ''includes'' = JNull
                 \<or> getProp ob ''includes'' = JNum 0 \<or> getProp ob ''includes'' = JBool False)
                \<longrightarrow> infersFromDependencies collect getLongestCommonSharedDirectory ob options deps st1
                      (resolveConfig options deps st1)
                  \<and> infersFromDependencies collect_v2 getLongestCommonSharedDirectory_v2 ob options deps st1
                      (resolveConfig_v2 options deps st1))"
proof -
  let ?st1 = "st\<lparr>obj := Some ob\<rparr>"
  let ?usable = "truthy (getProp ob ''source'') \<and> truthy (getProp ob ''includes'')"
  have ob: "obj ?st1 = Some ob" by simp
  have ex: "existsSync (disk st) (esdocConfig st)"
    using assms by (simp add: existsSync_def)
  have r1: "readConfig st = (Proceeds, ?st1)"
    using assms by (rule readConfig_parsed)
  have r2: "requires e (disk st) (esdocConfig st) = Inr (Some ob)
              \<longrightarrow> readConfig_v2 e st = (Proceeds, ?st1)"
    using readConfig_v2_parsed [OF ex, of e "Some ob"] by blast
  have u1: "usesFileConfig ob options ?st1 (resolveConfig options deps ?st1) = ?usable"
    using resolveConfig_usable [OF ob, of options deps] resolveConfig_unusable [OF ob, of options deps]
      outcomes_exclusive by blast
  have u2: "usesFileConfig ob options ?st1 (resolveConfig_v2 options deps ?st1) = ?usable"
    using resolveConfig_usable [OF ob, of options deps] resolveConfig_v2_unusable [OF ob, of options deps]
      outcomes_exclusive by blast
  have i1: "infersFromDependencies collect getLongestCommonSharedDirectory ob options deps ?st1
              (resolveConfig options deps ?st1) = (\<not> ?usable)"
    using resolveConfig_usable [OF ob, of options deps] resolveConfig_unusable [OF ob, of options deps]
      outcomes_exclusive by blast
  have i2: "infersFromDependencies collect_v2 getLongestCommonSharedDirectory_v2 ob options deps ?st1
              (resolveConfig_v2 options deps ?st1) = (\<not> ?usable)"
    using resolveConfig_usable [OF ob, of options deps] resolveConfig_v2_unusable [OF ob, of options deps]
      outcomes_exclusive by blast
  have falsy: "\<not> ?usable"
    if "getProp ob ''source'' = JStr [] \<or> getProp ob ''includes'' = JNull
          \<or> getProp ob ''includes'' = JNum 0 \<or> getProp ob ''includes'' = JBool False"
    using that by auto
  show ?thesis
    using r1 r2 ob u1 u2 i1 i2 falsy by (intro exI [of _ ?st1]) blast
qed

text \<open>
  A file named \<^verbatim>\<open>.esdoc.json\<close> whose \<^verbatim>\<open>source\<close> is the empty string and whose
  \<^verbatim>\<open>includes\<close> is an array: both variants read the object, and the source is
  inferred.
\<close>

theorem authoritative_iff_truthy_witness:
  "esdocConfig (applied ''/p/.esdoc.json'' ''/p''
       [''/p/.esdoc.json'' \<mapsto> JsonDoc [(''source'', JStr []), (''includes'', JArr [JStr ''x''])]]) \<noteq> []
   \<and> requires (exampleEnv quietRun [])
        [''/p/.esdoc.json'' \<mapsto> JsonDoc [(''source'', JStr []), (''includes'', JArr [JStr ''x''])]]
        ''/p/.esdoc.json''
      = Inr (Some [(''source'', JStr []), (''includes'', JArr [JStr ''x''])])
   \<and> (\<exists>st1. readConfig (applied ''/p/.esdoc.json'' ''/p''
                 [''/p/.esdoc.json'' \<mapsto> JsonDoc [(''source'', JStr []), (''includes'', JArr [JStr ''x''])]])
               = (Proceeds, st1)
          \<and> readConfig_v2 (exampleEnv quietRun []) (applied ''/p/.esdoc.json'' ''/p''
                 [''/p/.esdoc.json'' \<mapsto> JsonDoc [(''source'', JStr []), (''includes'', JArr [JStr ''x''])]])
               = (Proceeds, st1)
          \<and> infersFromDependencies collect getLongestCommonSharedDirectory
               [(''source'', JStr []), (''includes'', JArr [JStr ''x''])] [] [''/p/src/index.js''] st1
               (resolveConfig [] [''/p/src/index.js''] st1)
          \<and> infersFromDependencies collect_v2 getLongestCommonSharedDirectory_v2
               [(''source'', JStr []), (''includes'', JArr [JStr ''x''])] [] [''/p/src/index.js''] st1
               (resolveConfig_v2 [] [''/p/src/index.js''] st1)
          \<and> \<not> usesFileConfig [(''source'', JStr []), (''includes'', JArr [JStr ''x''])] [] st1
               (resolveConfig [] [''/p/src/index.js''] st1)
          \<and> \<not> usesFileConfig [(''source'', JStr []), (''includes'', JArr [JStr ''x''])] [] st1
               (resolveConfig_v2 [] [''/p/src/index.js''] st1))"
proof -
  let ?ob = "[(''source'', JStr []), (''includes'', JArr [JStr ''x''])]"
  let ?d = "[''/p/.esdoc.json'' \<mapsto> JsonDoc ?ob]"
  let ?s = "applied ''/p/.esdoc.json'' ''/p'' ?d"
  let ?e = "exampleEnv quietRun []"
  have h1: "esdocConfig ?s \<noteq> []"
    by (simp add: applied_def)
  have h2: "disk ?s (esdocConfig ?s) = Some (JsonDoc ?ob)"
    by (simp add: applied_def)
  have h3: "requires ?e ?d ''/p/.esdoc.json'' = Inr (Some ?ob)"
    by code_simp
  have h3': "requires ?e (disk ?s) (esdocConfig ?s) = Inr (Some ?ob)"
    using h3 by (simp add: applied_def)
  have falsy: "\<not> (truthy (getProp ?ob ''source'') \<and> truthy (getProp ?ob ''includes''))"
    by (simp add: getProp_def)
  from authoritative_iff_truthy [OF h1 h2, of ?e "[]" "[''/p/src/index.js'']"] falsy h1 h3 h3'
  show ?thesis by blast
qed

subsection \<open>No entry file among the dependencies\<close>

lemma emit_stops_in_resolver:
  assumes "readConfig (locateExecutable e options st) = (Proceeds, st2)"
    and "resolveConfig options deps st2 = (Throws x, st3)"
  shows "emit e options deps st = (Throws x, st3)"
  using assms by (simp add: emit_def)

lemma emit_v2_stops_in_resolver:
  assumes "readConfig_v2 e (locateExecutable_v2 e options st) = (Proceeds, st2)"
    and "resolveConfig_v2 options deps st2 = (Throws x, st3)"
  shows "emit_v2 e options deps st = (Throws x, st3)"
  using assms by (simp add: emit_v2_def)

text \<open>
  C6, as the spec states it: with no usable configuration on disk and no entry file
  left after filtering, the build cycle signals a configuration error, and the
  resolver is never run on an empty list. On the code, with no configuration file and
  a single dependency under \<^verbatim>\<open>node_modules\<close>, nothing is collected, the resolver is run
  on the empty list and raises a TypeError, which leaves the emit hook; the
  continuation is not called.
\<close>

theorem empty_dependencies_no_configuration_error:
  "collect [''/proj/node_modules/x/index.js''] [] = []
   \<and> getLongestCommonSharedDirectory []
       = Inl (TypeError ''Cannot read property length of undefined'')
   \<and> fst (emit (exampleEnv quietRun []) (pluginOptions [(''cwd'', JStr ''/proj'')])
          [''/proj/node_modules/x/index.js'']
          (applied ''/proj/.esdoc.json'' ''/proj'' [fst esdocBin \<mapsto> snd esdocBin]))
     = Throws (TypeError ''Cannot read property length of undefined'')
   \<and> callbacks (snd (emit (exampleEnv quietRun []) (pluginOptions [(''cwd'', JStr ''/proj'')])
          [''/proj/node_modules/x/index.js'']
          (applied ''/proj/.esdoc.json'' ''/proj'' [fst esdocBin \<mapsto> snd esdocBin])))
     = []"
  by code_simp

text \<open>
  C6, amended: when the object in hand after the read is not authoritative and the
  list of collected entry files is empty, the resolver is run on the empty list and
  raises a TypeError that leaves the emit hook of either variant; the continuation is
  not called for this failure, and no transient file is written.
\<close>

theorem empty_dependencies_raise:
  assumes "obj st2 = Some ob"
    and "\<not> (truthy (getProp ob ''source'') \<and> truthy (getProp ob ''includes''))"
  shows "(readConfig (locateExecutable e options st) = (Proceeds, st2)
            \<and> collect deps (files st2) = [] \<longrightarrow>
          (\<exists>st'. emit e options deps st
                   = (Throws (TypeError ''Cannot read property length of undefined''), st')
                \<and> callbacks st' = callbacks (locateExecutable e options st)
                \<and> disk st' = disk st \<and> tmpFile st' = tmpFile st))
       \<and> (readConfig_v2 e (locateExecutable_v2 e options st) = (Proceeds, st2)
            \<and> collect_v2 deps (files st2) = [] \<longrightarrow>
          (\<exists>st'. emit_v2 e options deps st
                   = (Throws (TypeError ''Cannot read property Length of undefined''), st')
                \<and> callbacks st' = callbacks (locateExecutable_v2 e options st)
                \<and> disk st' = disk st \<and> tmpFile st' = tmpFile st))"
proof (intro conjI impI)
  assume a: "readConfig (locateExecutable e options st) = (Proceeds, st2)
               \<and> collect deps (files st2) = []"
  let ?st3 = "(console_log ''ESDocPlugin: Provided configuration either not found or does not contain an includes key. Generating from the bundles.'' st2)\<lparr>files := []\<rparr>"
  have "resolveConfig options deps st2
          = (Throws (TypeError ''Cannot read property length of undefined''), ?st3)"
    using assms a
    by (simp add: resolveConfig_def Let_def getLongestCommonSharedDirectory_def)
  then have "emit e options deps st
          = (Throws (TypeError ''Cannot read property length of undefined''), ?st3)"
    using a emit_stops_in_resolver by blast
  moreover have "callbacks ?st3 = callbacks (locateExecutable e options st)
       \<and> disk ?st3 = disk st \<and> tmpFile ?st3 = tmpFile st"
    using readConfig_frame [of "locateExecutable e options st" Proceeds st2] a by simp
  ultimately show "\<exists>st'. emit e options deps st
                   = (Throws (TypeError ''Cannot read property length of undefined''), st')
                \<and> callbacks st' = callbacks (locateExecutable e options st)
                \<and> disk st' = disk st \<and> tmpFile st' = tmpFile st"
    by blast
next
  assume a: "readConfig_v2 e (locateExecutable_v2 e options st) = (Proceeds, st2)
               \<and> collect_v2 deps (files st2) = []"
  let ?st3 = "(console_log ''ESDocPlugin: Provided configuration either not found or does not contain an includes key. Generating from the bundles.'' st2)\<lparr>files := []\<rparr>"
  have "resolveConfig_v2 options deps st2
          = (Throws (TypeError ''Cannot read property Length of undefined''), ?st3)"
    using assms a
    by (simp add: resolveConfig_v2_def Let_def getLongestCommonSharedDirectory_v2_def)
  then have "emit_v2 e options deps st
          = (Throws (TypeError ''Cannot read property Length of undefined''), ?st3)"
    using a emit_v2_stops_in_resolver by blast
  moreover have "callbacks ?st3 = callbacks (locateExecutable_v2 e options st)
       \<and> disk ?st3 = disk st \<and> tmpFile ?st3 = tmpFile st"
    using readConfig_v2_frame [of e "locateExecutable_v2 e options st" st2] a by simp
  ultimately show "\<exists>st'. emit_v2 e options deps st
                   = (Throws (TypeError ''Cannot read property Length of undefined''), st')
                \<and> callbacks st' = callbacks (locateExecutable_v2 e options st)
                \<and> disk st' = disk st \<and> tmpFile st' = tmpFile st"
    by blast
qed

theorem empty_dependencies_raise_witness:
  "obj (snd (readConfig (locateExecutable (exampleEnv quietRun [])
              (pluginOptions [(''cwd'', JStr ''/proj'')])
              (applied ''/proj/.esdoc.json'' ''/proj'' [fst esdocBin \<mapsto> snd esdocBin]))))
     = Some []
   \<and> \<not> (truthy (getProp [] ''source'') \<and> truthy (getProp [] ''includes''))
   \<and> collect [''/proj/node_modules/x/index.js''] [] = []
   \<and> collect_v2 [''/proj/node_modules/x/index.js''] [] = []
   \<and> (\<exists>st'. emit (exampleEnv quietRun []) (pluginOptions [(''cwd'', JStr ''/proj'')])
                 [''/proj/node_modules/x/index.js'']
                 (applied ''/proj/.esdoc.json'' ''/proj'' [fst esdocBin \<mapsto> snd esdocBin])
               = (Throws (TypeError ''Cannot read property length of undefined''), st')
            \<and> callbacks st' = []
            \<and> tmpFile st' = None)
   \<and> (\<exists>st'. emit_v2 (exampleEnv quietRun []) (pluginOptions [(''cwd'', JStr ''/proj'')])
                 [''/proj/node_modules/x/index.js'']
                 (applied ''/proj/.esdoc.json'' ''/proj'' [fst esdocBin \<mapsto> snd esdocBin])
               = (Throws (TypeError ''Cannot read property Length of undefined''), st')
            \<and> callbacks st' = []
            \<and> tmpFile st' = None)"
proof -
  let ?e = "exampleEnv quietRun []"
  let ?o = "pluginOptions [(''cwd'', JStr ''/proj'')]"
  let ?s = "applied ''/proj/.esdoc.json'' ''/proj'' [fst esdocBin \<mapsto> snd esdocBin]"
  let ?d = "[''/proj/node_modules/x/index.js'']"
  let ?st2 = "snd (readConfig (locateExecutable ?e ?o ?s))"
  let ?st2' = "snd (readConfig_v2 ?e (locateExecutable_v2 ?e ?o ?s))"
  have r: "readConfig (locateExecutable ?e ?o ?s) = (Proceeds, ?st2)"
    using readConfig_proceeds [of "locateExecutable ?e ?o ?s"] by (metis prod.collapse)
  have "fst (readConfig_v2 ?e (locateExecutable_v2 ?e ?o ?s)) = Proceeds"
    by code_simp
  then have r': "readConfig_v2 ?e (locateExecutable_v2 ?e ?o ?s) = (Proceeds, ?st2')"
    by (metis prod.collapse)
  have fr: "obj ?st2 = Some []" "files ?st2 = []"
    by code_simp+
  have fr': "obj ?st2' = Some []" "files ?st2' = []"
    by code_simp+
  have c: "collect ?d [] = []" "collect_v2 ?d [] = []"
    by code_simp+
  have u: "\<not> (truthy (getProp [] ''source'') \<and> truthy (getProp [] ''includes''))"
    by (simp add: getProp_def)
  have cb: "callbacks (locateExecutable ?e ?o ?s) = []"
    "callbacks (locateExecutable_v2 ?e ?o ?s) = []"
    by code_simp+
  have o: "tmpFile ?s = None"
    by (simp add: applied_def)
  from empty_dependencies_raise [OF fr(1) u, of ?e ?o ?s ?d] r c fr(2)
  obtain st1 where st1: "emit ?e ?o ?d ?s
                      = (Throws (TypeError ''Cannot read property length of undefined''), st1)"
    "callbacks st1 = callbacks (locateExecutable ?e ?o ?s)" "tmpFile st1 = tmpFile ?s"
    by auto
  from empty_dependencies_raise [OF fr'(1) u, of ?e ?o ?s ?d] r' c fr'(2)
  obtain st2 where st2: "emit_v2 ?e ?o ?d ?s
                      = (Throws (TypeError ''Cannot read property Length of undefined''), st2)"
    "callbacks st2 = callbacks (locateExecutable_v2 ?e ?o ?s)" "tmpFile st2 = tmpFile ?s"
    by auto
  from st1 st2 cb o u c fr(1) show ?thesis by auto
qed

subsection \<open>Removal and the run leave the continuation alone\<close>

lemma removeTmp_never_raises: "fst (removeTmp options tmp st) = None"
  by (auto simp: removeTmp_def Let_def existsSync_def unlinkSync_def split: option.splits)

lemma removeTmp_disk:
  "t \<noteq> [] \<Longrightarrow>
     disk (snd (removeTmp options (Some t) st))
       = (if truthy (getProp options ''preserveTmpFile'') then disk st else (disk st)(t := None))"
  by (auto simp: removeTmp_def Let_def existsSync_def unlinkSync_def)

lemma removeTmp_console_err: "console_err (snd (removeTmp options tmp st)) = console_err st"
  by (auto simp: removeTmp_def Let_def existsSync_def unlinkSync_def split: option.splits)

lemma resolveConfig_callbacks:
  "resolveConfig options deps st = (c, st') \<Longrightarrow> callbacks st' = callbacks st"
  by (auto simp: resolveConfig_def Let_def split: option.splits if_splits sum.splits)

lemma writeTransient_callbacks [simp]:
  "callbacks (writeTransient st) = callbacks st"
  by (simp add: writeTransient_def Let_def)

lemma printMessages_callbacks [simp]: "callbacks (printMessages ms st) = callbacks st"
  by (induction ms arbitrary: st) auto

lemma removeTmp_callbacks: "callbacks (snd (removeTmp options tmp st)) = callbacks st"
  by (auto simp: removeTmp_def Let_def existsSync_def unlinkSync_def split: option.splits)

lemma Esdoc_callbacks:
  "callbacks (snd (Esdoc e options c args dir tmp st)) = callbacks st"
proof (cases "spawnSync e c args dir (disk st)")
  case (Inl x)
  then show ?thesis by (simp add: Esdoc_def)
next
  case (Inr r)
  obtain esdoc d where r: "r = (esdoc, d)" by (cases r) auto
  let ?st2 = "if truthy (getProp options ''showOutput'')
              then showOutputBlock esdoc (st\<lparr>disk := d\<rparr>) else st\<lparr>disk := d\<rparr>"
  have c2: "callbacks ?st2 = callbacks st"
    by (simp add: showOutputBlock_def Let_def)
  obtain st3 where rm: "removeTmp options tmp ?st2 = (None, st3)"
    using removeTmp_never_raises [of options tmp ?st2] by (cases "removeTmp options tmp ?st2") auto
  have c3: "callbacks st3 = callbacks st"
    using removeTmp_callbacks [of options tmp ?st2] rm c2 by simp
  show ?thesis
    using Inr r rm c3
    by (simp add: Esdoc_def Let_def console_error_def console_log_def split: option.splits)
qed

subsection \<open>Calls of the continuation\<close>

lemma locate_v2_not_found:
  assumes "lookupFile (resolveJoin e) (disk st) (ESDOC_FILES_v2 e)
             [esdocConfigDir st, strOf (getProp options ''cwd''), cwd e, dirname e] = None"
  shows "callbacks (locateExecutable_v2 e options st)
           = callbacks st @ [WithError (JsError ''ESDocPlugin:'')]"
  using assms by (simp add: locateExecutable_v2_def Let_def)

lemma writeTransient_v2_callbacks [simp]:
  "callbacks (writeTransient_v2 st) = callbacks st"
  by (simp add: writeTransient_v2_def Let_def)

lemma resolveConfig_v2_callbacks:
  "resolveConfig_v2 options deps st = (c, st') \<Longrightarrow> callbacks st' = callbacks st"
  by (auto simp: resolveConfig_v2_def Let_def split: option.splits if_splits sum.splits)

lemma emit_v2_not_found_calls_twice:
  assumes nf: "lookupFile (resolveJoin e) (disk st) (ESDOC_FILES_v2 e)
             [esdocConfigDir st, strOf (getProp options ''cwd''), cwd e, dirname e] = None"
    and ret: "emit_v2 e options deps st = (Returns, st')"
  shows "\<exists>a. callbacks st' = callbacks st @ [WithError (JsError ''ESDocPlugin:''), a]"
proof -
  let ?l = "locateExecutable_v2 e options st"
  obtain c st2 where rc: "readConfig_v2 e ?l = (c, st2)" by (cases "readConfig_v2 e ?l") auto
  show ?thesis
  proof (cases c)
    case Proceeds
    obtain c3 st3 where rs: "resolveConfig_v2 options deps st2 = (c3, st3)"
      by (cases "resolveConfig_v2 options deps st2") auto
    have cb3: "callbacks st3 = callbacks ?l"
      using resolveConfig_v2_callbacks [OF rs] readConfig_v2_frame [of e ?l st2] rc Proceeds by simp
    show ?thesis
    proof (cases c3)
      case P3: Proceeds
      then have "st' = callback NoArgument (writeTransient_v2 st3)"
        using ret rc rs Proceeds by (simp add: emit_v2_def)
      then show ?thesis using cb3 locate_v2_not_found [OF nf] by simp
    next
      case Returns
      then have "resolveConfig_v2 options deps st2 = (Returns, st3)" using rs by simp
      then show ?thesis
        by (auto simp: resolveConfig_v2_def Let_def split: option.splits if_splits sum.splits)
    next
      case (Throws x)
      then show ?thesis using ret rc rs Proceeds by (simp add: emit_v2_def)
    qed
  next
    case Returns
    then have "\<exists>x. st2 = callback (WithError x) ?l"
      using rc by (auto simp: readConfig_v2_def split: if_splits sum.splits)
    moreover have "st' = st2" using ret rc Returns by (simp add: emit_v2_def)
    ultimately show ?thesis using locate_v2_not_found [OF nf] by auto
  next
    case (Throws x)
    then show ?thesis using ret rc by (simp add: emit_v2_def)
  qed
qed

lemma emit_esdoc_raised_no_call:
  assumes "readConfig (locateExecutable e options st) = (Proceeds, st2)"
    and "resolveConfig options deps st2 = (Proceeds, st3)"
    and "fst (Esdoc e options (cmd (writeTransient st3)) (esdocArgs (writeTransient st3))
                (esdocConfigDir (writeTransient st3)) (tmpFile (writeTransient st3))
                (writeTransient st3)) = Inl x"
  shows "fst (emit e options deps st) = Returns
       \<and> callbacks (snd (emit e options deps st)) = callbacks (locateExecutable e options st)"
proof -
  let ?w = "writeTransient st3"
  let ?r = "Esdoc e options (cmd ?w) (esdocArgs ?w) (esdocConfigDir ?w) (tmpFile ?w) ?w"
  have r: "?r = (Inl x, snd ?r)"
    using assms(3) by (metis prod.collapse)
  have "emit e options deps st = (Returns, snd ?r)"
    using assms(1,2) by (simp add: emit_def Let_def) (subst r, simp)
  moreover have "callbacks (snd ?r) = callbacks (locateExecutable e options st)"
    using Esdoc_callbacks [of e options "cmd ?w" "esdocArgs ?w" "esdocConfigDir ?w" "tmpFile ?w" ?w]
      resolveConfig_callbacks [OF assms(2)]
      readConfig_frame [OF assms(1)] by simp
  ultimately show ?thesis by simp
qed

text \<open>
  C1. The claim: in every emit cycle the continuation is called exactly once, with an
  error when the cycle fails and with nothing when it succeeds. In the first variant,
  when \<^verbatim>\<open>Esdoc\<close> raises, the handler at lines 368 to 370 returns a new Error and the
  continuation is not called at all (\<open>emit_esdoc_raised_no_call\<close>); so it is with an
  executable that is found and cannot be started, where \<^verbatim>\<open>spawnSync\<close> reports no
  streams. In both variants the continuation is called with the error when no
  executable is found and the hook then goes on, as no \<^verbatim>\<open>return\<close> follows the call
  (the handler of a failed read, a few lines below, has one): in the second variant,
  with no executable on disk and a usable configuration file, the continuation is
  called twice, with the error and then with nothing
  (\<open>emit_v2_not_found_calls_twice\<close>).
\<close>

theorem continuation_not_called_once:
  "fst (emit (exampleEnv (Proc None None None) []) (pluginOptions [(''cwd'', JStr ''/proj'')]) []
      (applied ''/proj/.esdoc.json'' ''/proj''
         [''/proj/.esdoc.json'' \<mapsto> JsonDoc fileConfig, fst esdocBin \<mapsto> snd esdocBin]))
     = Returns
   \<and> callbacks (snd (emit (exampleEnv (Proc None None None) []) (pluginOptions [(''cwd'', JStr ''/proj'')]) []
      (applied ''/proj/.esdoc.json'' ''/proj''
         [''/proj/.esdoc.json'' \<mapsto> JsonDoc fileConfig, fst esdocBin \<mapsto> snd esdocBin])))
     = []
   \<and> fst (emit_v2 (exampleEnv quietRun []) (pluginOptions [(''cwd'', JStr ''/proj'')]) []
      (applied ''/proj/.esdoc.json'' ''/proj'' [''/proj/.esdoc.json'' \<mapsto> JsonDoc fileConfig]))
     = Returns
   \<and> callbacks (snd (emit_v2 (exampleEnv quietRun []) (pluginOptions [(''cwd'', JStr ''/proj'')]) []
      (applied ''/proj/.esdoc.json'' ''/proj'' [''/proj/.esdoc.json'' \<mapsto> JsonDoc fileConfig])))
     = [WithError (JsError ''ESDocPlugin:''), NoArgument]"
  by code_simp

subsection \<open>A configuration file that does not parse\<close>

lemma emit_v2_parse_failure:
  assumes "existsSync (disk st) (esdocConfig st)"
    and "requires e (disk st) (esdocConfig st) = Inl x"
  shows "emit_v2 e options deps st
           = (Returns, callback (WithError x) (locateExecutable_v2 e options st))"
  using assms readConfig_v2_unparsed [of "locateExecutable_v2 e options st" e x]
  by (simp add: emit_v2_def)

lemma emit_parse_failure:
  assumes "esdocConfig st \<noteq> []" and "disk st (esdocConfig st) = Some (Text t)"
  shows "emit e options deps st
           = (Throws (TypeError ''Cannot read property source of null''),
              (locateExecutable e options st)\<lparr>obj := None\<rparr>)"
  using assms readConfig_unparsed [of "locateExecutable e options st" t]
  by (simp add: emit_def resolveConfig_def)

text \<open>
  The second cycle of a watch in the second variant, on the disk of the examples: the
  first cycle leaves \<^verbatim>\<open>esdocConfig\<close> at the transient file, whose name ends in
  \<^verbatim>\<open>.tmp\<close>, so \<^verbatim>\<open>require\<close> compiles the JSON written there as JavaScript and raises;
  the continuation of the second cycle gets the error.
\<close>

lemma second_cycle_v2_require_raises:
  "callbacks (snd (emit_v2 (exampleEnv quietRun []) (pluginOptions [(''cwd'', JStr ''/proj'')]) []
      (snd (emit_v2 (exampleEnv quietRun []) (pluginOptions [(''cwd'', JStr ''/proj'')]) []
         (applied ''/proj/.esdoc.json'' ''/proj''
            [''/proj/.esdoc.json'' \<mapsto> JsonDoc fileConfig, fst esdocBin \<mapsto> snd esdocBin])))))
     = [NoArgument, WithError (SyntaxError ''/proj/.esdoc.json.tmp'')]"
  by code_simp

text \<open>
  C5. The claim: a configuration file that exists and does not parse is passed at
  once to the continuation as an error, and nothing is inferred. The second variant
  does so with whatever \<^verbatim>\<open>require\<close> raises (\<open>emit_v2_parse_failure\<close>). In the first
  variant \<^verbatim>\<open>readConfigFile\<close> reads with \<^verbatim>\<open>throws: false\<close> and returns \<^verbatim>\<open>null\<close>, the
  \<^verbatim>\<open>catch\<close> that calls the continuation is never entered, and reading \<^verbatim>\<open>obj.source\<close>
  raises a TypeError that leaves the hook: the continuation is not called
  (\<open>emit_parse_failure\<close>). Evaluated on a file named \<^verbatim>\<open>.esdoc.json\<close> that holds text
  that is not JSON, beside an executable:
\<close>

theorem parse_failure_raises_type_error:
  "fst (emit (exampleEnv quietRun []) (pluginOptions [(''cwd'', JStr ''/proj'')])
          [''/proj/src/index.js'']
          (applied ''/proj/.esdoc.json'' ''/proj''
             [''/proj/.esdoc.json'' \<mapsto> Text ''{ source: '', fst esdocBin \<mapsto> snd esdocBin]))
     = Throws (TypeError ''Cannot read property source of null'')
   \<and> callbacks (snd (emit (exampleEnv quietRun []) (pluginOptions [(''cwd'', JStr ''/proj'')])
          [''/proj/src/index.js'']
          (applied ''/proj/.esdoc.json'' ''/proj''
             [''/proj/.esdoc.json'' \<mapsto> Text ''{ source: '', fst esdocBin \<mapsto> snd esdocBin])))
     = []
   \<and> fst (emit_v2 (exampleEnv quietRun []) (pluginOptions [(''cwd'', JStr ''/proj'')])
          [''/proj/src/index.js'']
          (applied ''/proj/.esdoc.json'' ''/proj''
             [''/proj/.esdoc.json'' \<mapsto> Text ''{ source: '', fst esdocBin \<mapsto> snd esdocBin]))
     = Returns
   \<and> callbacks (snd (emit_v2 (exampleEnv quietRun []) (pluginOptions [(''cwd'', JStr ''/proj'')])
          [''/proj/src/index.js'']
          (applied ''/proj/.esdoc.json'' ''/proj''
             [''/proj/.esdoc.json'' \<mapsto> Text ''{ source: '', fst esdocBin \<mapsto> snd esdocBin])))
     = [WithError (SyntaxError ''/proj/.esdoc.json'')]"
  by code_simp

subsection \<open>The result of a run\<close>

lemma printMessages_console_err [simp]: "console_err (printMessages ms st) = console_err st"
  by (induction ms arbitrary: st) auto

lemma showOutputBlock_console_err [simp]: "console_err (showOutputBlock p st) = console_err st"
  by (simp add: showOutputBlock_def Let_def)

lemma Esdoc_reports_stderr:
  assumes "runs e file args dir (disk st) = (Proc out (Some errs) code, d)"
  shows "fst (Esdoc e options (Some file) args dir tmp st)
           = (if errs \<noteq> [] then Inr (ReturnedError (JsError ''ESDocPlugin:'')) else Inr ReturnedTrue)
       \<and> console_err (snd (Esdoc e options (Some file) args dir tmp st))
           = (if errs \<noteq> [] then console_err st @ [''ERR toString '' @ errs] else console_err st)"
proof -
  let ?st1 = "st\<lparr>disk := d\<rparr>"
  let ?st2 = "if truthy (getProp options ''showOutput'')
              then showOutputBlock (Proc out (Some errs) code) ?st1 else ?st1"
  obtain st3 where r: "removeTmp options tmp ?st2 = (None, st3)"
    using removeTmp_never_raises [of options tmp ?st2] by (cases "removeTmp options tmp ?st2") auto
  have ce: "console_err st3 = console_err st"
    using removeTmp_console_err [of options tmp ?st2] r by simp
  show ?thesis
    using assms r ce
    by (simp add: Esdoc_def spawnSync_def Let_def console_error_def console_log_def)
qed

lemma onClose_v2_never_rejects:
  "fst (fst (onClose_v2 preserve tmp closeCode st)) \<noteq> Rejected x"
  by (auto simp: onClose_v2_def split: prod.splits option.splits)

lemma onClose_v2_with_errors:
  assumes "esdocErrors st \<noteq> []" and "fst (removeTmp_v2 preserve tmp st) = None"
  shows "fst (onClose_v2 preserve tmp closeCode st)
           = (Pending, Some (ReferenceError ''code is not defined''))"
proof -
  obtain st1 where r: "removeTmp_v2 preserve tmp st = (None, st1)"
    using assms(2) by (cases "removeTmp_v2 preserve tmp st") auto
  have "esdocErrors st1 = esdocErrors st"
    using r by (auto simp: removeTmp_v2_def Let_def split: option.splits if_splits sum.splits)
  then show ?thesis using assms(1) r by (simp add: onClose_v2_def)
qed

text \<open>
  C2. The claim: a run is reported as failed exactly when standard error carried
  something, whatever the exit status. \<^verbatim>\<open>Esdoc\<close> of the first variant returns an Error
  object exactly then, and prints the text on the error console
  (\<open>Esdoc_reports_stderr\<close>); the emit hook drops the returned value and calls the
  continuation with nothing. In the second variant the handler of \<^verbatim>\<open>close\<close> prints the
  lines, and then raises a ReferenceError while it builds the argument of \<^verbatim>\<open>reject\<close>:
  the promise is never rejected (\<open>onClose_v2_never_rejects\<close>). Evaluated on a run that
  writes one line to standard error and exits with status 0:
\<close>

theorem stderr_run_not_rejected:
  "fst (promiseEsdoc_v2 (exampleEnv quietRun [StderrData ''warning: x'', Close 0])
          (pluginOptions [(''cwd'', JStr ''/proj'')])
          (snd (emit_v2 (exampleEnv quietRun [StderrData ''warning: x'', Close 0])
                  (pluginOptions [(''cwd'', JStr ''/proj'')]) []
                  (applied ''/proj/.esdoc.json'' ''/proj''
                     [''/proj/.esdoc.json'' \<mapsto> JsonDoc fileConfig, fst esdocBin \<mapsto> snd esdocBin]))))
     = (Pending, Some (ReferenceError ''code is not defined''))
   \<and> fst (Esdoc (exampleEnv (Proc (Some []) (Some ''warning: x'') (Some 0)) [])
          (pluginOptions [(''cwd'', JStr ''/proj'')]) (Some (fst esdocBin))
          [''-c'', ''/proj/.esdoc.json.tmp''] ''/proj'' (Some ''/proj/.esdoc.json.tmp'')
          (applied ''/proj/.esdoc.json'' ''/proj'' [fst esdocBin \<mapsto> snd esdocBin]))
     = Inr (ReturnedError (JsError ''ESDocPlugin:''))
   \<and> callbacks (snd (emit (exampleEnv (Proc (Some []) (Some ''warning: x'') (Some 0)) [])
          (pluginOptions [(''cwd'', JStr ''/proj'')]) []
          (applied ''/proj/.esdoc.json'' ''/proj''
             [''/proj/.esdoc.json'' \<mapsto> JsonDoc fileConfig, fst esdocBin \<mapsto> snd esdocBin])))
     = [NoArgument]"
  by code_simp

subsection \<open>The name of the transient file\<close>

lemma transientPath_parse:
  assumes "base \<noteq> []" and "CHR ''/'' \<notin> set base"
  shows "parse_base (dir @ ''/'' @ base) = base"
    and "parse_dir (dir @ ''/'' @ base) = (if dir = [] then ''/'' else dir)"
proof -
  let ?p = "dir @ ''/'' @ base"
  have rp: "rev ?p = rev base @ CHR ''/'' # rev dir" by simp
  have "rev base \<noteq> []" using assms(1) by simp
  then obtain x xs where rb: "rev base = x # xs" by (cases "rev base") auto
  have "x \<in> set base" using rb by (metis list.set_intros(1) set_rev)
  then have x: "x \<noteq> CHR ''/''" using assms(2) by auto
  have base: "base = rev (x # xs)"
    using rb by (metis rev_rev_ident)
  have "dropWhile (\<lambda>c. c = CHR ''/'') (rev ?p) = rev ?p"
    unfolding rp rb using x by simp
  then have strip: "stripTrailing ?p = ?p"
    unfolding stripTrailing_def by simp
  have all: "\<And>c. c \<in> set (rev base) \<Longrightarrow> c \<noteq> CHR ''/''"
    using assms(2) by auto
  have tw: "takeWhile (\<lambda>c. c \<noteq> CHR ''/'') (rev ?p) = rev base"
    unfolding rp by (subst takeWhile_append2) (use all in auto)
  have dw: "dropWhile (\<lambda>c. c \<noteq> CHR ''/'') (rev ?p) = CHR ''/'' # rev dir"
    unfolding rp by (subst dropWhile_append2) (use all in auto)
  show "parse_base ?p = base"
    unfolding parse_base_def strip tw by simp
  show "parse_dir ?p = (if dir = [] then ''/'' else dir)"
    unfolding parse_dir_def strip dw by (simp add: Let_def)
qed

lemma transientPath_appends:
  assumes "base \<noteq> []" and "CHR ''/'' \<notin> set base" and "dir \<noteq> []"
  shows "transientPath (dir @ ''/'' @ base)
           = (if suffix ''.tmp'' base then dir @ ''/'' @ base else (dir @ ''/'' @ base) @ ''.tmp'')"
  unfolding transientPath_def transientPath_parse [OF assms(1,2)] using assms(3)
  by (simp add: Let_def)

lemma transientPath_root:
  assumes "base \<noteq> []" and "CHR ''/'' \<notin> set base"
  shows "transientPath (''/'' @ base)
           = (if suffix ''.tmp'' base then ''//'' @ base else ''//'' @ base @ ''.tmp'')"
  using transientPath_parse [OF assms, of "[]"] by (simp add: transientPath_def Let_def)

text \<open>
  C8. The claim: the transient path is the configuration path with \<^verbatim>\<open>.tmp\<close> appended,
  and the configuration path itself when its file name ends in \<^verbatim>\<open>.tmp\<close>. The first
  variant does so for a file in any directory but the root (\<open>transientPath_appends\<close>;
  in the root it writes two separators, \<open>transientPath_root\<close>). The second variant
  appends \<^verbatim>\<open>.tmp\<close> always, also to a name that ends in it.
\<close>

theorem transient_path_v2_appends_again:
  "transientPath_v2 ''/p/.esdoc.json.tmp'' = ''/p/.esdoc.json.tmp.tmp''
   \<and> transientPath ''/p/.esdoc.json.tmp'' = ''/p/.esdoc.json.tmp''
   \<and> transientPath_v2 ''/p/.esdoc.json'' = ''/p/.esdoc.json.tmp''
   \<and> transientPath ''/p/.esdoc.json'' = ''/p/.esdoc.json.tmp''
   \<and> transientPath ''/.esdoc.json'' = ''//.esdoc.json.tmp''"
  by code_simp

subsection \<open>Removing the transient file\<close>

lemma removeTmp_v2_missing:
  "t \<noteq> [] \<Longrightarrow> disk st t = None \<Longrightarrow>
     removeTmp_v2 False (Some t) st
       = (Some (SystemError ''ENOENT''),
          console_log ''ESDocPlugin: Removing temporary esdoc config file...'' st)"
  by (simp add: removeTmp_v2_def Let_def unlinkSync_def)

text \<open>
  C9. The claim: the transient file is removed exactly when it exists and is not to be
  kept, and removing a file that is not there is no error. The first variant tests
  \<^verbatim>\<open>existsSync\<close> before \<^verbatim>\<open>unlinkSync\<close> and never raises (\<open>removeTmp_never_raises\<close>,
  \<open>removeTmp_disk\<close>). The second variant calls \<^verbatim>\<open>unlinkSync\<close> unguarded: on a file that
  is not there it raises \<^verbatim>\<open>ENOENT\<close> out of the handler of \<^verbatim>\<open>close\<close>
  (\<open>removeTmp_v2_missing\<close>), and the promise stays pending.
\<close>

theorem unlink_v2_raises_when_missing:
  "fst (handle_v2 False False (Some ''/p/.esdoc.json.tmp'') [] [Close 0]
          (applied ''/p/.esdoc.json'' ''/p'' Map.empty))
     = (Pending, Some (SystemError ''ENOENT''))
   \<and> fst (removeTmp [(''preserveTmpFile'', JBool False)] (Some ''/p/.esdoc.json.tmp'')
          (applied ''/p/.esdoc.json'' ''/p'' Map.empty))
     = None"
  by code_simp

end
